theory Spec2Isabelle
  imports Complex_Main "HOL-Library.Char_ord" "HOL-Library.List_Lexorder"
begin

section \<open>JavaScript values\<close>

text \<open>
  The library is TypeScript. A \<^verbatim>\<open>number\<close> is a double: its three values that are not
  finite stand apart, and a finite one is the real number it denotes (so that \<^verbatim>\<open>-0\<close> is
  \<^verbatim>\<open>0\<close>). The arithmetic of doubles is not modelled: the code does none, and the functions
  that print and read numbers are arguments. A value of type \<^verbatim>\<open>any\<close> or \<^verbatim>\<open>unknown\<close> is
  a \<open>jsval\<close>, which has the values that JSON carries and \<^verbatim>\<open>undefined\<close>; an object is the
  list of its own properties in enumeration order. Strings are byte strings. A thrown
  exception is a \<open>js_exception\<close>, the left summand of a result.
\<close>

datatype number = NaN | PosInfinity | NegInfinity | Finite real

datatype js_exception = Error string | TypeError string

datatype jsval =
    JUndefined
  | JNull
  | JBool bool
  | JNum number
  | JStr string
  | JArr "jsval list"
  | JObj "(string \<times> jsval) list"

text \<open>Truthiness, as \<^verbatim>\<open>!x\<close>, \<^verbatim>\<open>x || y\<close> and \<^verbatim>\<open>if (x)\<close> test it.\<close>

fun number_truthy :: "number \<Rightarrow> bool" where
  "number_truthy NaN = False"
| "number_truthy (Finite n) = (n \<noteq> 0)"
| "number_truthy PosInfinity = True"
| "number_truthy NegInfinity = True"

fun truthy :: "jsval \<Rightarrow> bool" where
  "truthy JUndefined = False"
| "truthy JNull = False"
| "truthy (JBool b) = b"
| "truthy (JNum n) = number_truthy n"
| "truthy (JStr s) = (s \<noteq> [])"
| "truthy (JArr xs) = True"
| "truthy (JObj ps) = True"

text \<open>An optional string (\<^verbatim>\<open>string | undefined\<close>) is truthy when present and non-empty.\<close>

fun str_truthy :: "string option \<Rightarrow> bool" where
  "str_truthy None = False"
| "str_truthy (Some s) = (s \<noteq> [])"

text \<open>
  \<^verbatim>\<open>String.prototype.toLowerCase\<close> and \<^verbatim>\<open>toUpperCase\<close> on the ASCII letters; every
  other byte is kept, the case mappings of Unicode beyond ASCII being outside the model. (Of
  the characters outside ASCII only the Kelvin sign lower-cases to an ASCII letter,
  \<^verbatim>\<open>k\<close>, which none of the status words matched below contains.)
\<close>

definition toLowerChar :: "char \<Rightarrow> char" where
  "toLowerChar c =
     (case map_of (zip ''ABCDEFGHIJKLMNOPQRSTUVWXYZ'' ''abcdefghijklmnopqrstuvwxyz'') c of
        Some l \<Rightarrow> l | None \<Rightarrow> c)"

definition toLowerCase :: "string \<Rightarrow> string" where
  "toLowerCase s = map toLowerChar s"

definition toUpperChar :: "char \<Rightarrow> char" where
  "toUpperChar c =
     (case map_of (zip ''abcdefghijklmnopqrstuvwxyz'' ''ABCDEFGHIJKLMNOPQRSTUVWXYZ'') c of
        Some u \<Rightarrow> u | None \<Rightarrow> c)"

definition toUpperCase :: "string \<Rightarrow> string" where
  "toUpperCase s = map toUpperChar s"

text \<open>Two strings match case-insensitively when they agree after lower-casing.\<close>

definition same_ignoring_case :: "string \<Rightarrow> string \<Rightarrow> bool" where
  "same_ignoring_case s t = (toLowerCase s = toLowerCase t)"

text \<open>A \<^verbatim>\<open>Date\<close>: a time in milliseconds, or the invalid date of an unparsable string.\<close>

datatype JsDate = InvalidDate | DateMs int

section \<open>The built-in functions of the platform\<close>

text \<open>
  The library calls \<^verbatim>\<open>Object.keys\<close>, \<^verbatim>\<open>Array.prototype.sort\<close> and \<^verbatim>\<open>join\<close>,
  \<^verbatim>\<open>JSON.stringify\<close> and \<^verbatim>\<open>JSON.parse\<close>, which are modelled here after ECMAScript.
  What depends on the digits of a double is an argument of the function that calls it:
  \<open>numToString\<close> for \<^verbatim>\<open>Number.prototype.toString\<close>, \<open>scanNumber\<close> for the reading of
  a number literal in a JSON text (the number and the rest of the text, \<open>None\<close> when no
  literal starts the text), \<open>parseFloat\<close>. So are \<open>toStr\<close>, the conversion of a value to
  a string in a template literal with the exception it may throw, \<^verbatim>\<open>new Date\<close>, and the
  HMAC of \<^verbatim>\<open>crypto\<close>.
\<close>

subsection \<open>Numbers and values as strings\<close>

definition digit_char :: "nat \<Rightarrow> char" where
  "digit_char d = ''0123456789'' ! d"

fun show_nat :: "nat \<Rightarrow> string" where
  "show_nat n = (if n < 10 then [digit_char n] else show_nat (n div 10) @ [digit_char (n mod 10)])"

declare show_nat.simps [simp del]

fun number_gt_zero :: "number \<Rightarrow> bool" where
  "number_gt_zero NaN = False"
| "number_gt_zero (Finite n) = (0 < n)"
| "number_gt_zero PosInfinity = True"
| "number_gt_zero NegInfinity = False"

text \<open>\<^verbatim>\<open>Array.prototype.join\<close> on strings.\<close>

fun join :: "string \<Rightarrow> string list \<Rightarrow> string" where
  "join sep [] = []"
| "join sep [t] = t"
| "join sep (t # ts) = t @ sep @ join sep ts"

text \<open>
  The string that a template literal makes of a value that JSON carries, given the string
  of a number. An array joins the strings of its elements with commas, \<^verbatim>\<open>null\<close> and
  \<^verbatim>\<open>undefined\<close> elements being empty. A plain object is \<^verbatim>\<open>[object Object]\<close> by the
  method of its prototype, unless it has an own property \<^verbatim>\<open>toString\<close>: its value is not
  callable, \<^verbatim>\<open>valueOf\<close> gives no primitive value either, and the conversion throws a
  TypeError. This is the \<open>toStr\<close> of the instances below.
\<close>

fun js_toString :: "(number \<Rightarrow> string) \<Rightarrow> jsval \<Rightarrow> js_exception + string"
and js_toString_elems :: "(number \<Rightarrow> string) \<Rightarrow> jsval list \<Rightarrow> js_exception + string list"
where
  "js_toString numToString JUndefined = Inr ''undefined''"
| "js_toString numToString JNull = Inr ''null''"
| "js_toString numToString (JBool b) = Inr (if b then ''true'' else ''false'')"
| "js_toString numToString (JNum x) = Inr (numToString x)"
| "js_toString numToString (JStr s) = Inr s"
| "js_toString numToString (JArr xs) =
     (case js_toString_elems numToString xs of
        Inl exception \<Rightarrow> Inl exception
      | Inr ts \<Rightarrow> Inr (join '','' ts))"
| "js_toString numToString (JObj ps) =
     (if ''toString'' \<in> fst ` set ps
      then Inl (TypeError ''Cannot convert object to primitive value'')
      else Inr ''[object Object]'')"
| "js_toString_elems numToString [] = Inr []"
| "js_toString_elems numToString (x # xs) =
     (case (if x = JUndefined \<or> x = JNull then Inr [] else js_toString numToString x) of
        Inl exception \<Rightarrow> Inl exception
      | Inr t \<Rightarrow>
          (case js_toString_elems numToString xs of
             Inl exception \<Rightarrow> Inl exception
           | Inr ts \<Rightarrow> Inr (t # ts)))"

text \<open>
  The own enumerable properties of a value that is neither \<^verbatim>\<open>null\<close> nor
  \<^verbatim>\<open>undefined\<close>: those of an object, the indices of an array or of a string, none for a
  number or a boolean. \<open>js_get v k\<close> is \<^verbatim>\<open>v[k]\<close> for such a value and a key that
  no prototype defines; \<open>Object_keys\<close> is \<^verbatim>\<open>Object.keys\<close>.
\<close>

fun own_properties :: "jsval \<Rightarrow> (string \<times> jsval) list" where
  "own_properties (JObj ps) = ps"
| "own_properties (JArr xs) = zip (map show_nat [0 ..< length xs]) xs"
| "own_properties (JStr s) = zip (map show_nat [0 ..< length s]) (map (\<lambda>c. JStr [c]) s)"
| "own_properties v = []"

definition js_get :: "jsval \<Rightarrow> string \<Rightarrow> jsval" where
  "js_get v k = (case map_of (own_properties v) k of Some x \<Rightarrow> x | None \<Rightarrow> JUndefined)"

definition Object_keys :: "jsval \<Rightarrow> string list" where
  "Object_keys v = map fst (own_properties v)"

subsection \<open>JSON.stringify\<close>

text \<open>
  \<open>None\<close> is the result \<^verbatim>\<open>undefined\<close>. A property whose value is \<^verbatim>\<open>undefined\<close> is
  left out of an object and is \<^verbatim>\<open>null\<close> in an array; a number that is not finite is
  \<^verbatim>\<open>null\<close>, and a finite one is written by \<open>numToString\<close>. A string is quoted with the
  escapes of QuoteJSONString.
\<close>

definition hex_char :: "nat \<Rightarrow> char" where
  "hex_char d = ''0123456789abcdef'' ! d"

definition dquote :: char where "dquote = CHR 0x22"
definition bslash :: char where "bslash = CHR 0x5C"

definition QuoteJSONChar :: "char \<Rightarrow> string" where
  "QuoteJSONChar c =
     (if c = dquote then [bslash, dquote]
      else if c = bslash then [bslash, bslash]
      else if c = CHR 0x08 then [bslash, CHR ''b'']
      else if c = CHR 0x0C then [bslash, CHR ''f'']
      else if c = CHR 0x0A then [bslash, CHR ''n'']
      else if c = CHR 0x0D then [bslash, CHR ''r'']
      else if c = CHR 0x09 then [bslash, CHR ''t'']
      else if (of_char c :: nat) < 32 then
        [bslash, CHR ''u'', CHR ''0'', CHR ''0'', hex_char (of_char c div 16), hex_char (of_char c mod 16)]
      else [c])"

definition QuoteJSONString :: "string \<Rightarrow> string" where
  "QuoteJSONString s = dquote # concat (map QuoteJSONChar s) @ [dquote]"

fun join_commas :: "string list \<Rightarrow> string" where
  "join_commas [] = []"
| "join_commas [t] = t"
| "join_commas (t # ts) = t @ CHR '','' # join_commas ts"

fun JSON_stringify :: "(number \<Rightarrow> string) \<Rightarrow> jsval \<Rightarrow> string option" where
  "JSON_stringify numToString JUndefined = None"
| "JSON_stringify numToString JNull = Some ''null''"
| "JSON_stringify numToString (JBool b) = Some (if b then ''true'' else ''false'')"
| "JSON_stringify numToString (JNum x) =
     Some (case x of Finite r \<Rightarrow> numToString x | _ \<Rightarrow> ''null'')"
| "JSON_stringify numToString (JStr s) = Some (QuoteJSONString s)"
| "JSON_stringify numToString (JArr xs) =
     Some (CHR ''['' #
           join_commas
             (map (\<lambda>x. case JSON_stringify numToString x of None \<Rightarrow> ''null'' | Some t \<Rightarrow> t) xs)
           @ '']'')"
| "JSON_stringify numToString (JObj ps) =
     Some (CHR ''{'' #
           join_commas
             (concat (map (\<lambda>p. case JSON_stringify numToString (snd p) of
                               None \<Rightarrow> []
                             | Some t \<Rightarrow> [QuoteJSONString (fst p) @ CHR '':'' # t]) ps))
           @ ''}'')"

subsection \<open>JSON.parse\<close>

text \<open>
  A recursive-descent parser of JSON texts with insignificant white space; \<open>None\<close> is the
  thrown SyntaxError. The recursion is on a fuel argument, which \<open>JSON_parse\<close> sets to the
  length of the text. A repeated key keeps its first place and takes the last value. A
  number literal is read by \<open>scanNumber\<close>. Strings being byte strings, a four-digit escape
  of a code unit beyond ASCII has no value here, and the parser gives \<open>None\<close> there too;
  \<open>JSON_stringify\<close> writes no such escape.
\<close>

definition is_ws :: "char \<Rightarrow> bool" where
  "is_ws c = (c = CHR '' '' \<or> c = CHR 0x09 \<or> c = CHR 0x0A \<or> c = CHR 0x0D)"

definition skip_ws :: "string \<Rightarrow> string" where
  "skip_ws s = dropWhile is_ws s"

definition digit_val :: "char \<Rightarrow> nat option" where
  "digit_val c = map_of (zip ''0123456789'' [0, 1, 2, 3, 4, 5, 6, 7, 8, 9]) c"

definition hex_val :: "char \<Rightarrow> nat option" where
  "hex_val c =
     map_of (zip ''0123456789abcdefABCDEF''
       [0, 1, 2, 3, 4, 5, 6, 7, 8, 9, 10, 11, 12, 13, 14, 15, 10, 11, 12, 13, 14, 15]) c"

definition is_digit :: "char \<Rightarrow> bool" where
  "is_digit c = (digit_val c \<noteq> None)"

definition read_nat :: "string \<Rightarrow> nat" where
  "read_nat ds = foldl (\<lambda>n c. 10 * n + the (digit_val c)) 0 ds"

definition unescape :: "char \<Rightarrow> char option" where
  "unescape e = map_of
     [(dquote, dquote), (bslash, bslash), (CHR ''/'', CHR ''/''), (CHR ''b'', CHR 0x08),
      (CHR ''f'', CHR 0x0C), (CHR ''n'', CHR 0x0A), (CHR ''r'', CHR 0x0D), (CHR ''t'', CHR 0x09)] e"

fun parse_chars :: "string \<Rightarrow> (string \<times> string) option" where
  "parse_chars [] = None"
| "parse_chars (c # cs) =
     (if c = dquote then Some ([], cs)
      else if c = bslash then
        (case cs of
           [] \<Rightarrow> None
         | e # cs1 \<Rightarrow>
             if e = CHR ''u'' then
               (case cs1 of
                  h1 # h2 # h3 # h4 # cs2 \<Rightarrow>
                    (case (hex_val h1, hex_val h2, hex_val h3, hex_val h4) of
                       (Some a, Some b, Some c, Some d) \<Rightarrow>
                         if ((a * 16 + b) * 16 + c) * 16 + d < 128 then
                           map_option (\<lambda>(s, r). (char_of (((a * 16 + b) * 16 + c) * 16 + d) # s, r)) (parse_chars cs2)
                         else None
                     | _ \<Rightarrow> None)
                | _ \<Rightarrow> None)
             else
               (case unescape e of
                  Some ch \<Rightarrow> map_option (\<lambda>(s, r). (ch # s, r)) (parse_chars cs1)
                | None \<Rightarrow> None))
      else if (of_char c :: nat) < 32 then None
      else map_option (\<lambda>(s, r). (c # s, r)) (parse_chars cs))"

definition put_member :: "string \<Rightarrow> jsval \<Rightarrow> (string \<times> jsval) list \<Rightarrow> (string \<times> jsval) list" where
  "put_member k v ps =
     (if k \<in> fst ` set ps then map (\<lambda>(k', v'). if k' = k then (k', v) else (k', v')) ps
      else ps @ [(k, v)])"

fun parse_value :: "(string \<Rightarrow> (number \<times> string) option) \<Rightarrow> nat \<Rightarrow> string \<Rightarrow> (jsval \<times> string) option"
and parse_elems :: "(string \<Rightarrow> (number \<times> string) option) \<Rightarrow> nat \<Rightarrow> string \<Rightarrow> (jsval list \<times> string) option"
and parse_members ::
    "(string \<Rightarrow> (number \<times> string) option) \<Rightarrow> nat \<Rightarrow> (string \<times> jsval) list \<Rightarrow> string \<Rightarrow>
     ((string \<times> jsval) list \<times> string) option"
where
  "parse_value scanNumber 0 s = None"
| "parse_value scanNumber (Suc n) s =
     (case skip_ws s of
        [] \<Rightarrow> None
      | c # cs \<Rightarrow>
          if c = CHR ''n'' then (if take 3 cs = ''ull'' then Some (JNull, drop 3 cs) else None)
          else if c = CHR ''t'' then (if take 3 cs = ''rue'' then Some (JBool True, drop 3 cs) else None)
          else if c = CHR ''f'' then (if take 4 cs = ''alse'' then Some (JBool False, drop 4 cs) else None)
          else if c = dquote then map_option (\<lambda>(t, r). (JStr t, r)) (parse_chars cs)
          else if c = CHR ''['' then
            (case skip_ws cs of
               [] \<Rightarrow> None
             | d # ds \<Rightarrow> if d = CHR '']'' then Some (JArr [], ds)
                         else map_option (\<lambda>(vs, r). (JArr vs, r)) (parse_elems scanNumber n cs))
          else if c = CHR ''{'' then
            (case skip_ws cs of
               [] \<Rightarrow> None
             | d # ds \<Rightarrow> if d = CHR ''}'' then Some (JObj [], ds)
                         else map_option (\<lambda>(ps, r). (JObj ps, r)) (parse_members scanNumber n [] cs))
          else map_option (\<lambda>(x, r). (JNum x, r)) (scanNumber (c # cs)))"
| "parse_elems scanNumber 0 s = None"
| "parse_elems scanNumber (Suc n) s =
     (case parse_value scanNumber n s of
        None \<Rightarrow> None
      | Some (v, r) \<Rightarrow>
          (case skip_ws r of
             [] \<Rightarrow> None
           | c # cs \<Rightarrow>
               if c = CHR '','' then map_option (\<lambda>(vs, r'). (v # vs, r')) (parse_elems scanNumber n cs)
               else if c = CHR '']'' then Some ([v], cs)
               else None))"
| "parse_members scanNumber 0 acc s = None"
| "parse_members scanNumber (Suc n) acc s =
     (case skip_ws s of
        [] \<Rightarrow> None
      | q # s1 \<Rightarrow>
          if q \<noteq> dquote then None
          else
            (case parse_chars s1 of
               None \<Rightarrow> None
             | Some (k, s2) \<Rightarrow>
                 (case skip_ws s2 of
                    [] \<Rightarrow> None
                  | c # s3 \<Rightarrow>
                      if c \<noteq> CHR '':'' then None
                      else
                        (case parse_value scanNumber n s3 of
                           None \<Rightarrow> None
                         | Some (v, r) \<Rightarrow>
                             (case skip_ws r of
                                [] \<Rightarrow> None
                              | d # ds \<Rightarrow>
                                  if d = CHR '','' then parse_members scanNumber n (put_member k v acc) ds
                                  else if d = CHR ''}'' then Some (put_member k v acc, ds)
                                  else None)))))"

definition JSON_parse :: "(string \<Rightarrow> (number \<times> string) option) \<Rightarrow> string \<Rightarrow> jsval option" where
  "JSON_parse scanNumber text =
     (case parse_value scanNumber (length text) text of
        None \<Rightarrow> None
      | Some (v, r) \<Rightarrow> if skip_ws r = [] then Some v else None)"

subsection \<open>Integers as number literals\<close>

text \<open>
  \<^verbatim>\<open>Number.prototype.toString\<close> on a number without fraction and of magnitude below
  \<open>10\<^sup>2\<^sup>1\<close>, which it writes in decimal digits, and the reading of such a literal, which
  gives \<open>None\<close> on a fraction or an exponent. They are the \<open>numToString\<close> and the
  \<open>scanNumber\<close> of the instances below, whose numbers are such integers; no theorem is
  about them alone.
\<close>

definition integer_toString :: "number \<Rightarrow> string" where
  "integer_toString x =
     (case x of
        NaN \<Rightarrow> ''NaN''
      | PosInfinity \<Rightarrow> ''Infinity''
      | NegInfinity \<Rightarrow> ''-Infinity''
      | Finite r \<Rightarrow> if r < 0 then CHR ''-'' # show_nat (nat \<lfloor>- r\<rfloor>) else show_nat (nat \<lfloor>r\<rfloor>))"

definition scan_digits :: "bool \<Rightarrow> string \<Rightarrow> (number \<times> string) option" where
  "scan_digits neg s =
     (let ds = takeWhile is_digit s; r = dropWhile is_digit s
      in if ds = [] then None
         else if hd ds = CHR ''0'' \<and> length ds > 1 then None
         else if r \<noteq> [] \<and> hd r \<in> set ''.eE'' then None
         else Some (Finite (if neg then - real (read_nat ds) else real (read_nat ds)), r))"

definition integer_scan :: "string \<Rightarrow> (number \<times> string) option" where
  "integer_scan s =
     (case s of
        [] \<Rightarrow> None
      | c # cs \<Rightarrow> if c = CHR ''-'' then scan_digits True cs else scan_digits False s)"

section \<open>The unified types (src/types)\<close>

datatype TransactionStatus =
  PENDING | COMPLETED | FAILED | CANCELED | REFUNDED | PARTIALLY_REFUNDED

datatype WebhookEventType =
    PAYMENT_SUCCESS
  | PAYMENT_FAILED
  | PAYMENT_PENDING
  | REFUND_SUCCESS
  | REFUND_FAILED
  | SUBSCRIPTION_CREATED
  | SUBSCRIPTION_CANCELED
  | SUBSCRIPTION_PAYMENT
  | SUBSCRIPTION_FAILED

datatype environment = Env_test | Env_production

text \<open>
  Record fields carry a prefix for their record, since several interfaces share field names
  (\<^verbatim>\<open>success\<close>, \<^verbatim>\<open>status\<close>, \<^verbatim>\<open>amount\<close>): \<open>req_\<close> PaymentRequest, \<open>pr_\<close> PaymentResponse,
  \<open>rr_\<close> RefundResponse, \<open>ed_\<close> the data of a WebhookEvent, \<open>ev_\<close> WebhookEvent,
  \<open>vr_\<close> WebhookValidationResult. An optional field is an \<open>option\<close>.
\<close>

record PaymentRequest =
  req_amount :: number
  req_currency :: string
  req_reference :: string
  req_description :: string
  req_customerEmail :: "string option"
  req_customerName :: "string option"
  req_customerPhone :: "string option"
  req_metadata :: "(string \<times> jsval) list option"
  req_returnUrl :: "string option"
  req_cancelUrl :: "string option"
  req_webhookUrl :: "string option"

record PaymentResponse =
  pr_success :: bool
  pr_redirectUrl :: "string option"
  pr_paymentId :: "string option"
  pr_token :: "string option"
  pr_message :: "string option"
  pr_status :: "TransactionStatus option"
  pr_gatewayReference :: "string option"
  pr_createdAt :: "JsDate option"

record RefundResponse =
  rr_success :: bool
  rr_refundId :: "string option"
  rr_amount :: "number option"
  rr_message :: "string option"
  rr_status :: "TransactionStatus option"
  rr_createdAt :: "JsDate option"

record WebhookValidationResult =
  vr_isValid :: bool
  vr_reason :: "string option"

record WebhookEventData =
  ed_reference :: string
  ed_paymentId :: "string option"
  ed_amount :: "number option"
  ed_currency :: "string option"
  ed_status :: TransactionStatus
  ed_gatewayReference :: "string option"
  ed_metadata :: "jsval option"
  ed_customerEmail :: "string option"
  ed_customerName :: "string option"
  ed_customerPhone :: "string option"

record WebhookEvent =
  ev_type :: WebhookEventType
  ev_data :: WebhookEventData
  ev_createdAt :: JsDate
  ev_gatewayName :: string

section \<open>The provider's types and constants (src/providers/paytech)\<close>

datatype PAYTECH_ENVIRONMENT = TEST | PRODUCTION

definition PAYTECH_WEBHOOK_EVENT_PAYMENT_SUCCESS :: string where
  "PAYTECH_WEBHOOK_EVENT_PAYMENT_SUCCESS = ''payment_success''"

definition PAYTECH_WEBHOOK_EVENT_PAYMENT_FAILED :: string where
  "PAYTECH_WEBHOOK_EVENT_PAYMENT_FAILED = ''payment_failed''"

definition PAYTECH_WEBHOOK_EVENT_PAYMENT_CANCELED :: string where
  "PAYTECH_WEBHOOK_EVENT_PAYMENT_CANCELED = ''payment_canceled''"

definition PAYTECH_WEBHOOK_EVENT_REFUND_SUCCESS :: string where
  "PAYTECH_WEBHOOK_EVENT_REFUND_SUCCESS = ''refund_success''"

definition PAYTECH_WEBHOOK_EVENT_REFUND_FAILED :: string where
  "PAYTECH_WEBHOOK_EVENT_REFUND_FAILED = ''refund_failed''"

definition PAYTECH_CURRENCIES :: "string list" where
  "PAYTECH_CURRENCIES = [''XOF'', ''EUR'', ''USD'', ''CAD'', ''GBP'', ''MAD'']"

definition PAYTECH_ENDPOINTS_REQUEST_PAYMENT :: string where
  "PAYTECH_ENDPOINTS_REQUEST_PAYMENT = ''/payment/request-payment''"

definition PAYTECH_ENDPOINTS_CHECK_STATUS :: string where
  "PAYTECH_ENDPOINTS_CHECK_STATUS = ''/payment/check-status''"

definition PAYTECH_ENDPOINTS_REFUND :: string where
  "PAYTECH_ENDPOINTS_REFUND = ''/payment/refund''"

text \<open>
  Prefixes of the provider's records: \<open>ci_\<close> customer_info, \<open>preq_\<close> PaytechPaymentRequest,
  \<open>pres_\<close> PaytechPaymentResponse, \<open>sr_\<close> PaytechStatusResponse, \<open>rq_\<close> PaytechRefundRequest,
  \<open>rs_\<close> PaytechRefundResponse, \<open>wp_\<close> PaytechWebhookPayload.
\<close>

record customer_info =
  ci_name :: "string option"
  ci_email :: "string option"
  ci_phone :: "string option"

record PaytechPaymentRequest =
  preq_item_name :: string
  preq_item_price :: string
  preq_currency :: string
  preq_ref_command :: string
  preq_command_name :: string
  preq_env :: PAYTECH_ENVIRONMENT
  preq_ipn_url :: "string option"
  preq_success_url :: "string option"
  preq_cancel_url :: "string option"
  preq_custom_field :: "string option"

record PaytechPaymentResponse =
  pres_success :: number
  pres_redirect_url :: "string option"
  pres_token :: "string option"
  pres_error :: "string option"

record PaytechStatusResponse =
  sr_success :: number
  sr_status :: "string option"
  sr_error :: "string option"
  sr_ref_command :: "string option"
  sr_amount :: "string option"
  sr_currency :: "string option"
  sr_date :: "string option"
  sr_transaction_id :: "string option"
  sr_customer_info :: "customer_info option"

record PaytechRefundRequest =
  rq_token :: string
  rq_amount :: "number option"
  rq_reason :: "string option"

record PaytechRefundResponse =
  rs_success :: number
  rs_refund_id :: "string option"
  rs_amount :: "string option"
  rs_error :: "string option"
  rs_status :: "string option"
  rs_date :: "string option"

record PaytechWebhookPayload =
  wp_type :: string
  wp_token :: string
  wp_ref_command :: string
  wp_amount :: string
  wp_currency :: string
  wp_status :: string
  wp_date :: string
  wp_transaction_id :: string
  wp_custom_field :: "string option"
  wp_customer_info :: "customer_info option"

section \<open>The mappers (src/providers/paytech/mappers.ts)\<close>

text \<open>
  The built-in functions that are not modelled are the first arguments of a mapper:
  \<open>numToString\<close>, \<open>parseFloat\<close>, \<open>dateParse\<close> for \<^verbatim>\<open>new Date(s)\<close> and \<open>now\<close> for the value of
  \<^verbatim>\<open>new Date()\<close> at the call. \<open>mapFromPaytechWebhook\<close> takes \<^verbatim>\<open>JSON.parse\<close> as an
  argument too, \<open>jsonParse\<close> (\<open>None\<close> is the thrown SyntaxError), so that what is proved
  of it holds of every parser. What \<^verbatim>\<open>console.log\<close> prints in its \<^verbatim>\<open>catch\<close> is not
  part of the result.
\<close>

definition mapToPaytechRequest ::
  "(number \<Rightarrow> string) \<Rightarrow> PaymentRequest \<Rightarrow> environment \<Rightarrow> PaytechPaymentRequest" where
  "mapToPaytechRequest numToString request env =
     \<lparr> preq_item_name = req_description request,
       preq_item_price = numToString (req_amount request),
       preq_currency = req_currency request,
       preq_ref_command = req_reference request,
       preq_command_name = req_description request,
       preq_env = (if env = Env_production then PRODUCTION else TEST),
       preq_ipn_url = req_webhookUrl request,
       preq_success_url = req_returnUrl request,
       preq_cancel_url = req_cancelUrl request,
       preq_custom_field =
         (case req_metadata request of
            Some m \<Rightarrow> JSON_stringify numToString (JObj m)
          | None \<Rightarrow> None) \<rparr>"

definition mapFromPaytechResponse :: "JsDate \<Rightarrow> PaytechPaymentResponse \<Rightarrow> PaymentResponse" where
  "mapFromPaytechResponse now response =
     (if pres_success response = Finite 1 then
        \<lparr> pr_success = True,
          pr_redirectUrl = pres_redirect_url response,
          pr_paymentId = pres_token response,
          pr_token = pres_token response,
          pr_message = None,
          pr_status = Some PENDING,
          pr_gatewayReference = None,
          pr_createdAt = Some now \<rparr>
      else
        \<lparr> pr_success = False,
          pr_redirectUrl = None,
          pr_paymentId = None,
          pr_token = None,
          pr_message =
            (if str_truthy (pres_error response) then pres_error response
             else Some ''Unknown error occurred''),
          pr_status = Some FAILED,
          pr_gatewayReference = None,
          pr_createdAt = Some now \<rparr>)"

text \<open>The switch over the lower-cased status string, shared by both status mappings.\<close>

definition mapPaytechStatus :: "PaytechStatusResponse \<Rightarrow> TransactionStatus" where
  "mapPaytechStatus statusResponse =
     (if \<not> number_truthy (sr_success statusResponse) then FAILED
      else
        (case map_option toLowerCase (sr_status statusResponse) of
           None \<Rightarrow> FAILED
         | Some s \<Rightarrow>
             if s = ''completed'' \<or> s = ''success'' then COMPLETED
             else if s = ''pending'' \<or> s = ''waiting'' then PENDING
             else if s = ''canceled'' \<or> s = ''cancelled'' then CANCELED
             else if s = ''refunded'' then REFUNDED
             else FAILED))"

definition mapFromPaytechRefundResponse ::
  "(string \<Rightarrow> number) \<Rightarrow> (string \<Rightarrow> JsDate) \<Rightarrow> JsDate \<Rightarrow>
   PaytechRefundResponse \<Rightarrow> number option \<Rightarrow> RefundResponse" where
  "mapFromPaytechRefundResponse parseFloat dateParse now response requestedAmount =
     (if rs_success response = Finite 1 then
        \<lparr> rr_success = True,
          rr_refundId = rs_refund_id response,
          rr_amount =
            (case requestedAmount of
               Some a \<Rightarrow>
                 if number_truthy a then Some a
                 else if str_truthy (rs_amount response)
                   then map_option parseFloat (rs_amount response) else None
             | None \<Rightarrow>
                 if str_truthy (rs_amount response)
                   then map_option parseFloat (rs_amount response) else None),
          rr_message = None,
          rr_status = Some REFUNDED,
          rr_createdAt =
            (if str_truthy (rs_date response)
               then map_option dateParse (rs_date response) else Some now) \<rparr>
      else
        \<lparr> rr_success = False,
          rr_refundId = None,
          rr_amount = None,
          rr_message =
            (if str_truthy (rs_error response) then rs_error response
             else Some ''Refund failed''),
          rr_status = Some FAILED,
          rr_createdAt = Some now \<rparr>)"

definition mapFromPaytechWebhook ::
  "(string \<Rightarrow> jsval option) \<Rightarrow> (string \<Rightarrow> number) \<Rightarrow> (string \<Rightarrow> JsDate) \<Rightarrow> JsDate \<Rightarrow>
   PaytechWebhookPayload \<Rightarrow> WebhookEvent" where
  "mapFromPaytechWebhook jsonParse parseFloat dateParse now payload =
     (let eventType =
            (if wp_type payload = PAYTECH_WEBHOOK_EVENT_PAYMENT_SUCCESS then PAYMENT_SUCCESS
             else if wp_type payload = PAYTECH_WEBHOOK_EVENT_PAYMENT_FAILED then PAYMENT_FAILED
             else if wp_type payload = PAYTECH_WEBHOOK_EVENT_PAYMENT_CANCELED then PAYMENT_FAILED
             else if wp_type payload = PAYTECH_WEBHOOK_EVENT_REFUND_SUCCESS then REFUND_SUCCESS
             else if wp_type payload = PAYTECH_WEBHOOK_EVENT_REFUND_FAILED then REFUND_FAILED
             else PAYMENT_SUCCESS);
          s = toLowerCase (wp_status payload);
          status =
            (if s = ''completed'' \<or> s = ''success'' then COMPLETED
             else if s = ''pending'' \<or> s = ''waiting'' then PENDING
             else if s = ''canceled'' \<or> s = ''cancelled'' then CANCELED
             else if s = ''refunded'' then REFUNDED
             else FAILED);
          metadata =
            (case wp_custom_field payload of
               None \<Rightarrow> JObj []
             | Some cf \<Rightarrow>
                 if cf = [] then JObj []
                 else (case jsonParse cf of
                         Some v \<Rightarrow> v
                       | None \<Rightarrow> JObj [(''raw'', JStr cf)]))
      in \<lparr> ev_type = eventType,
           ev_data =
             \<lparr> ed_reference = wp_ref_command payload,
               ed_paymentId = Some (wp_token payload),
               ed_amount = Some (parseFloat (wp_amount payload)),
               ed_currency = Some (wp_currency payload),
               ed_status = status,
               ed_gatewayReference = Some (wp_transaction_id payload),
               ed_metadata = Some metadata,
               ed_customerEmail = Option.bind (wp_customer_info payload) ci_email,
               ed_customerName = Option.bind (wp_customer_info payload) ci_name,
               ed_customerPhone = Option.bind (wp_customer_info payload) ci_phone \<rparr>,
           ev_createdAt =
             (if wp_date payload \<noteq> [] then dateParse (wp_date payload) else now),
           ev_gatewayName = ''paytech'' \<rparr>)"

section \<open>Utilities (src/providers/paytech/utils.ts)\<close>

definition isValidPaytechCurrency :: "string \<Rightarrow> bool" where
  "isValidPaytechCurrency currency = (toUpperCase currency \<in> set PAYTECH_CURRENCIES)"

definition isValidPaytechAmount :: "number \<Rightarrow> bool" where
  "isValidPaytechAmount amount = number_gt_zero amount"

text \<open>
  \<open>hmacSha256Hex secret text\<close> stands for
  \<^verbatim>\<open>createHmac("sha256", secret).update(text).digest("hex")\<close>, and \<open>toStr\<close> for the
  conversion of \<^verbatim>\<open>payload[key]\<close> in the template literal. \<open>mapKeyValue\<close> is the
  \<^verbatim>\<open>map\<close> over the sorted keys: the first conversion that throws ends it.
  \<^verbatim>\<open>Object.keys\<close> throws on \<^verbatim>\<open>null\<close> and \<^verbatim>\<open>undefined\<close>.
\<close>

fun mapKeyValue ::
  "(jsval \<Rightarrow> js_exception + string) \<Rightarrow> jsval \<Rightarrow> string list \<Rightarrow> js_exception + string list" where
  "mapKeyValue toStr payload [] = Inr []"
| "mapKeyValue toStr payload (key # keys) =
     (case toStr (js_get payload key) of
        Inl exception \<Rightarrow> Inl exception
      | Inr s \<Rightarrow>
          (case mapKeyValue toStr payload keys of
             Inl exception \<Rightarrow> Inl exception
           | Inr pairs \<Rightarrow> Inr ((key @ ''='' @ s) # pairs)))"

definition createWebhookSignature ::
  "(string \<Rightarrow> string \<Rightarrow> string) \<Rightarrow> (jsval \<Rightarrow> js_exception + string) \<Rightarrow> jsval \<Rightarrow> string \<Rightarrow>
   js_exception + string" where
  "createWebhookSignature hmacSha256Hex toStr payload secret =
     (if payload = JUndefined \<or> payload = JNull
      then Inl (TypeError ''Cannot convert undefined or null to object'')
      else
        (case mapKeyValue toStr payload (sort (Object_keys payload)) of
           Inl exception \<Rightarrow> Inl exception
         | Inr pairs \<Rightarrow>
             (let payloadString = join ''&'' pairs
              in Inr (hmacSha256Hex secret payloadString))))"

definition verifyWebhookSignature ::
  "(string \<Rightarrow> string \<Rightarrow> string) \<Rightarrow> (jsval \<Rightarrow> js_exception + string) \<Rightarrow> jsval \<Rightarrow> string \<Rightarrow>
   string \<Rightarrow> js_exception + bool" where
  "verifyWebhookSignature hmacSha256Hex toStr payload signature secret =
     (case createWebhookSignature hmacSha256Hex toStr payload secret of
        Inl exception \<Rightarrow> Inl exception
      | Inr expectedSignature \<Rightarrow> Inr (expectedSignature = signature))"

section \<open>Webhooks (src/providers/paytech/webhooks.ts)\<close>

definition invalid :: "string \<Rightarrow> WebhookValidationResult" where
  "invalid reason = \<lparr> vr_isValid = False, vr_reason = Some reason \<rparr>"

definition valid :: WebhookValidationResult where
  "valid = \<lparr> vr_isValid = True, vr_reason = None \<rparr>"

definition requiredFields :: "string list" where
  "requiredFields = [''token'', ''ref_command'', ''type'', ''status'']"

text \<open>The loop over the required fields: the result it returns early, if it does.\<close>

fun checkRequiredFields :: "jsval \<Rightarrow> string list \<Rightarrow> WebhookValidationResult option" where
  "checkRequiredFields payload [] = None"
| "checkRequiredFields payload (field # others) =
     (if \<not> truthy (js_get payload field)
      then Some (invalid (''Missing required field: '' @ field))
      else checkRequiredFields payload others)"

text \<open>
  The headers are a map from header names to strings. \<^verbatim>\<open>a || b\<close> on two optional strings
  is the first when it is truthy and the second otherwise. The validator has no
  \<^verbatim>\<open>try\<close>: an exception of the signature's computation is its own.
\<close>

definition str_or :: "string option \<Rightarrow> string option \<Rightarrow> string option" where
  "str_or a b = (if str_truthy a then a else b)"

definition validatePaytechWebhook ::
  "(string \<Rightarrow> string \<Rightarrow> string) \<Rightarrow> (jsval \<Rightarrow> js_exception + string) \<Rightarrow> jsval \<Rightarrow>
   (string \<rightharpoonup> string) \<Rightarrow> string option \<Rightarrow> js_exception + WebhookValidationResult" where
  "validatePaytechWebhook hmacSha256Hex toStr payload headers webhookSecret =
     (if \<not> truthy payload then Inr (invalid ''Empty payload'')
      else
        (case checkRequiredFields payload requiredFields of
           Some result \<Rightarrow> Inr result
         | None \<Rightarrow>
             (case webhookSecret of
                None \<Rightarrow> Inr valid
              | Some secret \<Rightarrow>
                  if secret = [] then Inr valid
                  else
                    (case str_or (headers ''x-paytech-signature'') (headers ''X-Paytech-Signature'') of
                       None \<Rightarrow> Inr (invalid ''Missing signature header'')
                     | Some signature \<Rightarrow>
                         if signature = [] then Inr (invalid ''Missing signature header'')
                         else
                           (case verifyWebhookSignature hmacSha256Hex toStr payload signature secret of
                              Inl exception \<Rightarrow> Inl exception
                            | Inr verified \<Rightarrow>
                                if \<not> verified then Inr (invalid ''Invalid signature'')
                                else Inr valid)))))"

definition processPaytechWebhook ::
  "(string \<Rightarrow> jsval option) \<Rightarrow> (string \<Rightarrow> number) \<Rightarrow> (string \<Rightarrow> JsDate) \<Rightarrow> JsDate \<Rightarrow>
   PaytechWebhookPayload \<Rightarrow> WebhookEvent" where
  "processPaytechWebhook jsonParse parseFloat dateParse now payload =
     mapFromPaytechWebhook jsonParse parseFloat dateParse now payload"

section \<open>The gateway (src/providers/paytech/PaytechGateway.ts)\<close>

text \<open>
  The configuration has the fields of
  GatewayConfig and of PaytechConfig (\<open>cfg_\<close>); the options of \<^verbatim>\<open>additionalConfig\<close> that
  \<^verbatim>\<open>initialize\<close> reads are typed as its casts say (\<open>ac_\<close>).
\<close>

record additionalConfig =
  ac_timeout :: "number option"
  ac_merchantId :: "string option"
  ac_defaultIpnUrl :: "string option"
  ac_defaultSuccessUrl :: "string option"
  ac_defaultCancelUrl :: "string option"

record GatewayConfig =
  gc_apiKey :: string
  gc_apiSecret :: string
  gc_environment :: environment
  gc_webhookSecret :: "string option"
  gc_additionalConfig :: "additionalConfig option"

record PaytechConfig =
  cfg_apiKey :: string
  cfg_apiSecret :: string
  cfg_environment :: environment
  cfg_webhookSecret :: "string option"
  cfg_merchantId :: "string option"
  cfg_timeout :: "number option"
  cfg_defaultIpnUrl :: "string option"
  cfg_defaultSuccessUrl :: "string option"
  cfg_defaultCancelUrl :: "string option"

text \<open>
  The state of an adapter: its configuration, the flag \<open>initialized\<close>, and of the HTTP
  client the one setting that \<^verbatim>\<open>initialize\<close> writes, the timeout.
\<close>

record PaytechGateway =
  config :: PaytechConfig
  initialized :: bool
  client_timeout :: number

definition constructor :: PaytechGateway where
  "constructor =
     \<lparr> config =
         \<lparr> cfg_apiKey = [], cfg_apiSecret = [], cfg_environment = Env_test,
           cfg_webhookSecret = None, cfg_merchantId = None, cfg_timeout = None,
           cfg_defaultIpnUrl = None, cfg_defaultSuccessUrl = None, cfg_defaultCancelUrl = None \<rparr>,
       initialized = False,
       client_timeout = Finite 10000 \<rparr>"

text \<open>
  \<^verbatim>\<open>initialize\<close> makes no call that can throw, so its \<^verbatim>\<open>catch\<close> is dead: it returns
  \<^verbatim>\<open>true\<close> and the initialized adapter.
\<close>

definition initialize :: "PaytechGateway \<Rightarrow> GatewayConfig \<Rightarrow> (js_exception + bool) \<times> PaytechGateway" where
  "initialize this cfg =
     (let timeout =
            (case Option.bind (gc_additionalConfig cfg) ac_timeout of
               Some t \<Rightarrow> if number_truthy t then t else Finite 10000
             | None \<Rightarrow> Finite 10000);
          config' =
            \<lparr> cfg_apiKey = gc_apiKey cfg,
              cfg_apiSecret = gc_apiSecret cfg,
              cfg_environment = gc_environment cfg,
              cfg_webhookSecret = gc_webhookSecret cfg,
              cfg_merchantId = Option.bind (gc_additionalConfig cfg) ac_merchantId,
              cfg_timeout = Some timeout,
              cfg_defaultIpnUrl = Option.bind (gc_additionalConfig cfg) ac_defaultIpnUrl,
              cfg_defaultSuccessUrl = Option.bind (gc_additionalConfig cfg) ac_defaultSuccessUrl,
              cfg_defaultCancelUrl = Option.bind (gc_additionalConfig cfg) ac_defaultCancelUrl \<rparr>
      in (Inr True, \<lparr> config = config', initialized = True, client_timeout = timeout \<rparr>))"

definition getHeaders :: "PaytechGateway \<Rightarrow> (string \<times> string) list" where
  "getHeaders this =
     [(''Accept'', ''application/json''),
      (''Content-Type'', ''application/json''),
      (''API_KEY'', cfg_apiKey (config this)),
      (''API_SECRET'', cfg_apiSecret (config this))]"

subsection \<open>The HTTP client\<close>

text \<open>
  A call of the client either resolves with the data of the response or rejects with a value
  \<open>error\<close>. Of a rejection the code reads: whether it is an axios error
  (\<^verbatim>\<open>axios.isAxiosError(error) || error.isAxiosError\<close>), its \<^verbatim>\<open>response\<close> (absent when the
  call failed before any response: a transport failure), whether it is an instance of
  \<^verbatim>\<open>Error\<close>, and its \<^verbatim>\<open>message\<close>. Of the response of a rejection it reads the status and
  the field \<^verbatim>\<open>error\<close> of the data (\<open>er_data\<close> is \<open>None\<close> when the response has no data,
  and reading the field then throws a TypeError, whose message is the engine's).
  The network is a function from calls to outcomes, and every operation returns, with its
  result, the list of the calls it made.
\<close>

record ErrorData =
  err_error :: "string option"

record ErrorResponse =
  er_status :: number
  er_data :: "ErrorData option"

record rejection =
  rj_isAxiosError :: bool
  rj_response :: "ErrorResponse option"
  rj_instanceofError :: bool
  rj_message :: "string option"

datatype 'a http_outcome = Resolved 'a | Rejected rejection

datatype http_body = PaymentBody PaytechPaymentRequest | RefundBody PaytechRefundRequest

datatype http_call =
    HttpGet string "(string \<times> string) list"
  | HttpPost string http_body "(string \<times> string) list"

text \<open>
  \<^verbatim>\<open>error instanceof Error ? error.message : "Unknown error"\<close>, as the template literal
  prints it.
\<close>

definition errorMessageOf :: "rejection \<Rightarrow> string" where
  "errorMessageOf error =
     (if rj_instanceofError error
      then (case rj_message error of Some m \<Rightarrow> m | None \<Rightarrow> ''undefined'')
      else ''Unknown error'')"

definition failedPayment :: "JsDate \<Rightarrow> string option \<Rightarrow> PaymentResponse" where
  "failedPayment now message =
     \<lparr> pr_success = False, pr_redirectUrl = None, pr_paymentId = None, pr_token = None,
       pr_message = message, pr_status = Some FAILED, pr_gatewayReference = None,
       pr_createdAt = Some now \<rparr>"

definition failedRefund :: "JsDate \<Rightarrow> string option \<Rightarrow> RefundResponse" where
  "failedRefund now message =
     \<lparr> rr_success = False, rr_refundId = None, rr_amount = None, rr_message = message,
       rr_status = Some FAILED, rr_createdAt = Some now \<rparr>"

definition notInitialized :: js_exception where
  "notInitialized = Error ''Gateway not initialized. Call initialize() first.''"

subsection \<open>The operations\<close>

definition createPayment ::
  "(http_call \<Rightarrow> PaytechPaymentResponse http_outcome) \<Rightarrow> (number \<Rightarrow> string) \<Rightarrow> JsDate \<Rightarrow>
   PaytechGateway \<Rightarrow> PaymentRequest \<Rightarrow> (js_exception + PaymentResponse) \<times> http_call list" where
  "createPayment http numToString now this request =
     (if \<not> initialized this then (Inl notInitialized, [])
      else if req_reference request = [] \<or> req_description request = []
        then (Inl (Error ''Invalid payment request: missing required fields''), [])
      else if \<not> isValidPaytechAmount (req_amount request)
        then (Inl (Error ''Invalid amount''), [])
      else if \<not> isValidPaytechCurrency (req_currency request)
        then (Inl (Error (''Unsupported currency: '' @ req_currency request)), [])
      else
        (let r0 = mapToPaytechRequest numToString request (cfg_environment (config this));
             r1 = (if \<not> str_truthy (preq_ipn_url r0) \<and> str_truthy (cfg_defaultIpnUrl (config this))
                   then r0 \<lparr> preq_ipn_url := cfg_defaultIpnUrl (config this) \<rparr> else r0);
             r2 = (if \<not> str_truthy (preq_success_url r1) \<and> str_truthy (cfg_defaultSuccessUrl (config this))
                   then r1 \<lparr> preq_success_url := cfg_defaultSuccessUrl (config this) \<rparr> else r1);
             paytechRequest =
                  (if \<not> str_truthy (preq_cancel_url r2) \<and> str_truthy (cfg_defaultCancelUrl (config this))
                   then r2 \<lparr> preq_cancel_url := cfg_defaultCancelUrl (config this) \<rparr> else r2);
             call = HttpPost PAYTECH_ENDPOINTS_REQUEST_PAYMENT (PaymentBody paytechRequest) (getHeaders this)
         in (case http call of
               Resolved paytechResponse \<Rightarrow> (Inr (mapFromPaytechResponse now paytechResponse), [call])
             | Rejected error \<Rightarrow>
                 (case (if rj_isAxiosError error then rj_response error else None) of
                    Some response \<Rightarrow>
                      (case er_data response of
                         None \<Rightarrow> (Inl (TypeError ''Cannot read properties of undefined''), [call])
                       | Some errorData \<Rightarrow>
                           (Inr (failedPayment now
                              (str_or (err_error errorData)
                                 (str_or (rj_message error) (Some ''Payment request failed'')))),
                            [call]))
                  | None \<Rightarrow>
                      (Inr (failedPayment now
                         (Some (''Payment request failed: '' @ errorMessageOf error))),
                       [call])))))"

definition verifyPayment ::
  "(http_call \<Rightarrow> PaytechStatusResponse http_outcome) \<Rightarrow>
   PaytechGateway \<Rightarrow> string \<Rightarrow> (js_exception + TransactionStatus) \<times> http_call list" where
  "verifyPayment http this paymentId =
     (if \<not> initialized this then (Inl notInitialized, [])
      else if paymentId = [] then (Inl (Error ''Payment ID is required''), [])
      else
        (let call = HttpGet (PAYTECH_ENDPOINTS_CHECK_STATUS @ ''/'' @ paymentId) (getHeaders this)
         in (case http call of
               Resolved statusResponse \<Rightarrow> (Inr (mapPaytechStatus statusResponse), [call])
             | Rejected error \<Rightarrow>
                 if rj_isAxiosError error
                    \<and> (case rj_response error of
                          Some response \<Rightarrow> er_status response = Finite 404
                        | None \<Rightarrow> False)
                 then (Inr FAILED, [call])
                 else (Inl (Error (''Failed to verify payment: '' @ errorMessageOf error)), [call]))))"

definition refundPayment ::
  "(http_call \<Rightarrow> PaytechRefundResponse http_outcome) \<Rightarrow> (string \<Rightarrow> number) \<Rightarrow>
   (string \<Rightarrow> JsDate) \<Rightarrow> JsDate \<Rightarrow>
   PaytechGateway \<Rightarrow> string \<Rightarrow> number option \<Rightarrow> (js_exception + RefundResponse) \<times> http_call list" where
  "refundPayment http parseFloat dateParse now this paymentId amount =
     (if \<not> initialized this then (Inl notInitialized, [])
      else if paymentId = [] then (Inl (Error ''Payment ID is required''), [])
      else
        (let refundRequest =
               \<lparr> rq_token = paymentId,
                 rq_amount =
                   (case amount of
                      Some a \<Rightarrow> if number_truthy a \<and> number_gt_zero a then Some a else None
                    | None \<Rightarrow> None),
                 rq_reason = None \<rparr>;
             call = HttpPost PAYTECH_ENDPOINTS_REFUND (RefundBody refundRequest) (getHeaders this)
         in (case http call of
               Resolved refundResponse \<Rightarrow>
                 (Inr (mapFromPaytechRefundResponse parseFloat dateParse now refundResponse amount),
                  [call])
             | Rejected error \<Rightarrow>
                 (case (if rj_isAxiosError error then rj_response error else None) of
                    Some response \<Rightarrow>
                      (case er_data response of
                         None \<Rightarrow> (Inl (TypeError ''Cannot read properties of undefined''), [call])
                       | Some errorData \<Rightarrow>
                           (Inr (failedRefund now
                              (str_or (err_error errorData)
                                 (str_or (rj_message error) (Some ''Refund request failed'')))),
                            [call]))
                  | None \<Rightarrow>
                      (Inr (failedRefund now
                         (Some (''Refund request failed: '' @ errorMessageOf error))),
                       [call])))))"

definition validateWebhook ::
  "(string \<Rightarrow> string \<Rightarrow> string) \<Rightarrow> (jsval \<Rightarrow> js_exception + string) \<Rightarrow> PaytechGateway \<Rightarrow>
   jsval \<Rightarrow> (string \<rightharpoonup> string) \<Rightarrow> js_exception + WebhookValidationResult" where
  "validateWebhook hmacSha256Hex toStr this payload headers =
     validatePaytechWebhook hmacSha256Hex toStr payload headers (cfg_webhookSecret (config this))"

section \<open>Notions used in the statements and proofs\<close>

text \<open>
  The values that JSON represents: no \<^verbatim>\<open>undefined\<close>, finite numbers only, and objects
  whose keys are distinct (as the keys of every JavaScript object are). \<open>numbers_of\<close> lists
  the numbers in a value.
\<close>

fun json_safe :: "jsval \<Rightarrow> bool" where
  "json_safe JUndefined = False"
| "json_safe JNull = True"
| "json_safe (JBool b) = True"
| "json_safe (JNum x) = (case x of Finite r \<Rightarrow> True | _ \<Rightarrow> False)"
| "json_safe (JStr s) = True"
| "json_safe (JArr xs) = list_all json_safe xs"
| "json_safe (JObj ps) = (distinct (map fst ps) \<and> list_all (\<lambda>p. json_safe (snd p)) ps)"

fun numbers_of :: "jsval \<Rightarrow> number list" where
  "numbers_of (JNum x) = [x]"
| "numbers_of (JArr xs) = concat (map numbers_of xs)"
| "numbers_of (JObj ps) = concat (map (\<lambda>p. numbers_of (snd p)) ps)"
| "numbers_of v = []"

text \<open>
  What may follow a value in a JSON text: nothing, a comma or a closing bracket. A number
  is read back when its string starts with a digit or a minus sign and the reading of a
  literal, at that string followed by such a rest, gives the number and the rest.
  ECMAScript has this of every finite number: the string of a number converts to the same
  number (\<^verbatim>\<open>-0\<close> and \<^verbatim>\<open>0\<close> being one number here, as they are for \<^verbatim>\<open>===\<close>).
\<close>

definition delimited :: "string \<Rightarrow> bool" where
  "delimited r = (case r of [] \<Rightarrow> True | c # _ \<Rightarrow> c = CHR '','' \<or> c = CHR '']'' \<or> c = CHR ''}'')"

definition reads_back ::
  "(number \<Rightarrow> string) \<Rightarrow> (string \<Rightarrow> (number \<times> string) option) \<Rightarrow> number \<Rightarrow> bool" where
  "reads_back numToString scanNumber x =
     ((\<exists>c cs. numToString x = c # cs \<and> (c = CHR ''-'' \<or> is_digit c))
      \<and> (\<forall>r. delimited r \<longrightarrow> scanNumber (numToString x @ r) = Some (x, r)))"

text \<open>
  The text of a value in an array or an object, the text of a member, what ends a run of
  digits, and what may open a value in a text that \<open>JSON_stringify\<close> writes.
\<close>

definition number_end :: "string \<Rightarrow> bool" where
  "number_end r = (case r of [] \<Rightarrow> True | c # _ \<Rightarrow> \<not> is_digit c \<and> c \<notin> set ''.eE'')"

definition json_text :: "(number \<Rightarrow> string) \<Rightarrow> jsval \<Rightarrow> string" where
  "json_text numToString v =
     (case JSON_stringify numToString v of None \<Rightarrow> ''null'' | Some t \<Rightarrow> t)"

definition member_text :: "(number \<Rightarrow> string) \<Rightarrow> string \<times> jsval \<Rightarrow> string" where
  "member_text numToString p =
     QuoteJSONString (fst p) @ CHR '':'' # json_text numToString (snd p)"

definition value_start :: "char \<Rightarrow> bool" where
  "value_start c = (\<not> is_ws c \<and> c \<noteq> CHR '']'' \<and> c \<noteq> CHR ''}'')"

definition put_all :: "(string \<times> jsval) list \<Rightarrow> (string \<times> jsval) list \<Rightarrow> (string \<times> jsval) list" where
  "put_all acc ps = foldl (\<lambda>a p. put_member (fst p) (snd p) a) acc ps"

text \<open>
  The decision procedure of the webhook validator read literally, where absent means that
  the value is \<^verbatim>\<open>undefined\<close> or \<^verbatim>\<open>null\<close> (a payload), that the payload has no value for
  the field, that no secret was given, and that the headers have no such name. The
  signature is compared as the code compares it.
\<close>

definition spec_validatePaytechWebhook ::
  "(string \<Rightarrow> string \<Rightarrow> string) \<Rightarrow> (jsval \<Rightarrow> js_exception + string) \<Rightarrow> jsval \<Rightarrow>
   (string \<rightharpoonup> string) \<Rightarrow> string option \<Rightarrow> js_exception + WebhookValidationResult" where
  "spec_validatePaytechWebhook hmacSha256Hex toStr payload headers webhookSecret =
     (if payload = JUndefined \<or> payload = JNull then Inr (invalid ''Empty payload'')
      else
        (case find (\<lambda>field. js_get payload field = JUndefined) requiredFields of
           Some field \<Rightarrow> Inr (invalid (''Missing required field: '' @ field))
         | None \<Rightarrow>
             (case webhookSecret of
                None \<Rightarrow> Inr valid
              | Some secret \<Rightarrow>
                  (case (case headers ''x-paytech-signature'' of
                           Some s \<Rightarrow> Some s
                         | None \<Rightarrow> headers ''X-Paytech-Signature'') of
                     None \<Rightarrow> Inr (invalid ''Missing signature header'')
                   | Some signature \<Rightarrow>
                       (case verifyWebhookSignature hmacSha256Hex toStr payload signature secret of
                          Inl exception \<Rightarrow> Inl exception
                        | Inr verified \<Rightarrow>
                            if \<not> verified then Inr (invalid ''Invalid signature'')
                            else Inr valid)))))"

section \<open>Values of the test suite\<close>

text \<open>
  The requests, responses and payloads that the tests of the gateway use
  (PaytechGateway.test.ts); the theorems below are instantiated on them. The custom field
  of the webhook payload is \<^verbatim>\<open>JSON.stringify({ orderId: "123" })\<close>.
\<close>

definition test_paymentRequest :: PaymentRequest where
  "test_paymentRequest =
     \<lparr> req_amount = Finite 5000,
       req_currency = ''XOF'',
       req_reference = ''order-123'',
       req_description = ''Test payment'',
       req_customerEmail = Some ''test@example.com'',
       req_customerName = Some ''Test User'',
       req_customerPhone = None,
       req_metadata = Some [(''orderId'', JStr ''123'')],
       req_returnUrl = Some ''https://example.com/success'',
       req_cancelUrl = Some ''https://example.com/cancel'',
       req_webhookUrl = Some ''https://example.com/webhook'' \<rparr>"

definition test_webhookPayload :: PaytechWebhookPayload where
  "test_webhookPayload =
     \<lparr> wp_type = ''payment_success'',
       wp_token = ''payment-123'',
       wp_ref_command = ''order-123'',
       wp_amount = ''5000'',
       wp_currency = ''XOF'',
       wp_status = ''completed'',
       wp_date = ''2023-01-01T12:00:00Z'',
       wp_transaction_id = ''txn-123'',
       wp_custom_field = JSON_stringify integer_toString (JObj [(''orderId'', JStr ''123'')]),
       wp_customer_info =
         Some \<lparr> ci_name = Some ''Test User'', ci_email = Some ''test@example.com'',
                ci_phone = Some ''+1234567890'' \<rparr> \<rparr>"

definition test_validPayload :: jsval where
  "test_validPayload =
     JObj [(''token'', JStr ''payment-123''), (''ref_command'', JStr ''order-123''),
           (''type'', JStr ''payment_success''), (''status'', JStr ''completed'')]"

text \<open>
  The valid payload with one more property, an object that has an own \<^verbatim>\<open>toString\<close>, as
  the JSON text \<^verbatim>\<open>{"toString": 1}\<close> parses to.
\<close>

definition test_throwingPayload :: jsval where
  "test_throwingPayload =
     JObj [(''token'', JStr ''payment-123''), (''ref_command'', JStr ''order-123''),
           (''type'', JStr ''payment_success''), (''status'', JStr ''completed''),
           (''extra'', JObj [(''toString'', JNum (Finite 1))])]"

definition test_statusResponse :: PaytechStatusResponse where
  "test_statusResponse =
     \<lparr> sr_success = Finite 1, sr_status = Some ''completed'', sr_error = None,
       sr_ref_command = Some ''order-123'', sr_amount = Some ''5000'',
       sr_currency = Some ''XOF'', sr_date = None, sr_transaction_id = None,
       sr_customer_info = None \<rparr>"

definition test_refundResponse :: PaytechRefundResponse where
  "test_refundResponse =
     \<lparr> rs_success = Finite 1, rs_refund_id = Some ''refund-123'', rs_amount = Some ''5000'',
       rs_error = None, rs_status = Some ''refunded'', rs_date = None \<rparr>"

definition test_config :: GatewayConfig where
  "test_config =
     \<lparr> gc_apiKey = ''test_api_key'', gc_apiSecret = ''test_api_secret'',
       gc_environment = Env_test, gc_webhookSecret = Some ''test_webhook_secret'',
       gc_additionalConfig = None \<rparr>"

text \<open>
  The two rejections of the tests: \<^verbatim>\<open>new Error("Network error")\<close>, and the mock of an
  axios error with a response of status 404.
\<close>

definition test_networkError :: rejection where
  "test_networkError =
     \<lparr> rj_isAxiosError = False, rj_response = None, rj_instanceofError = True,
       rj_message = Some ''Network error'' \<rparr>"

definition test_notFound :: rejection where
  "test_notFound =
     \<lparr> rj_isAxiosError = True,
       rj_response = Some \<lparr> er_status = Finite 404, er_data = None \<rparr>,
       rj_instanceofError = False, rj_message = None \<rparr>"

text \<open>
  Stand-ins for the built-in functions that are arguments, for the instances only: a
  \<open>parseFloat\<close> that knows the amounts of the tests, a date parser that knows the one date,
  a keyed function in the place of the HMAC, and a printer and a reader of numbers that
  know the price 19.99 beside the integers.
\<close>

definition test_parseFloat :: "string \<Rightarrow> number" where
  "test_parseFloat s =
     (if s = ''5000'' then Finite 5000 else if s = ''2000'' then Finite 2000 else NaN)"

definition test_dateParse :: "string \<Rightarrow> JsDate" where
  "test_dateParse s = (if s = ''2023-01-01T12:00:00Z'' then DateMs 1672574400000 else InvalidDate)"

definition test_hmac :: "string \<Rightarrow> string \<Rightarrow> string" where
  "test_hmac secret text = secret @ '':'' @ text"

definition test_numToString :: "number \<Rightarrow> string" where
  "test_numToString x = (if x = Finite (1999 / 100) then ''19.99'' else integer_toString x)"

definition test_scanNumber :: "string \<Rightarrow> (number \<times> string) option" where
  "test_scanNumber s =
     (if take 5 s = ''19.99'' then Some (Finite (1999 / 100), drop 5 s) else integer_scan s)"

section \<open>The JSON round trip\<close>

text \<open>
  \<open>JSON_parse\<close> reads back what \<open>JSON_stringify\<close> writes of a value that JSON
  represents, when the reader of numbers reads back what the printer of numbers writes of
  the numbers in the value: string literals first, then the elements of an array and the
  members of an object, then values by induction. The lemmas on digits are for the printer
  and the reader of integers.
\<close>

lemma digit_val_digit_char: "d < 10 \<Longrightarrow> digit_val (digit_char d) = Some d"
proof -
  assume "d < 10"
  then have "d = 0 \<or> d = 1 \<or> d = 2 \<or> d = 3 \<or> d = 4 \<or> d = 5 \<or> d = 6 \<or> d = 7 \<or> d = 8 \<or> d = 9"
    by arith
  then show ?thesis
    by (auto simp: digit_val_def digit_char_def)
qed

lemma is_digit_digit_char: "d < 10 \<Longrightarrow> is_digit (digit_char d)"
  by (simp add: is_digit_def digit_val_digit_char)

lemma digit_char_zero: "d < 10 \<Longrightarrow> digit_char d = CHR ''0'' \<longleftrightarrow> d = 0"
proof -
  assume "d < 10"
  then have "d = 0 \<or> d = 1 \<or> d = 2 \<or> d = 3 \<or> d = 4 \<or> d = 5 \<or> d = 6 \<or> d = 7 \<or> d = 8 \<or> d = 9"
    by arith
  then show ?thesis
    by (auto simp: digit_char_def)
qed

lemma show_nat_digits: "list_all is_digit (show_nat n)"
proof (induction n rule: show_nat.induct)
  case (1 n)
  show ?case
  proof (cases "n < 10")
    case True
    then show ?thesis by (subst show_nat.simps) (simp add: is_digit_digit_char)
  next
    case False
    with 1 show ?thesis by (subst show_nat.simps) (simp add: is_digit_digit_char)
  qed
qed

lemma show_nat_nonempty: "show_nat n \<noteq> []"
  by (subst show_nat.simps) simp

lemma show_nat_hd: "0 < n \<Longrightarrow> hd (show_nat n) \<noteq> CHR ''0''"
proof (induction n rule: show_nat.induct)
  case (1 n)
  show ?case
  proof (cases "n < 10")
    case True
    with 1 show ?thesis by (subst show_nat.simps) (simp add: digit_char_zero)
  next
    case False
    then have "0 < n div 10" by simp
    with 1 False show ?thesis by (subst show_nat.simps) (simp add: show_nat_nonempty)
  qed
qed

lemma show_nat_zero: "show_nat 0 = ''0''"
  by (subst show_nat.simps) (simp add: digit_char_def)

lemma read_nat_snoc: "read_nat (ds @ [c]) = 10 * read_nat ds + the (digit_val c)"
  by (simp add: read_nat_def)

lemma read_show_nat: "read_nat (show_nat n) = n"
proof (induction n rule: show_nat.induct)
  case (1 n)
  show ?case
  proof (cases "n < 10")
    case True
    then show ?thesis
      by (subst show_nat.simps) (simp add: read_nat_def digit_val_digit_char)
  next
    case False
    with 1 show ?thesis
      by (subst show_nat.simps) (simp add: read_nat_snoc digit_val_digit_char)
  qed
qed

lemma takeWhile_digits:
  "number_end r \<Longrightarrow> takeWhile is_digit (show_nat n @ r) = show_nat n"
  using show_nat_digits [of n]
  by (cases r) (auto simp: number_end_def list_all_iff takeWhile_append2 intro: takeWhile_eq_all_conv [THEN iffD2])

lemma dropWhile_digits:
  "number_end r \<Longrightarrow> dropWhile is_digit (show_nat n @ r) = r"
  using show_nat_digits [of n]
  by (cases r) (auto simp: number_end_def list_all_iff dropWhile_append2)

lemma show_nat_leading:
  "\<not> (hd (show_nat n) = CHR ''0'' \<and> 1 < length (show_nat n))"
proof (cases "n = 0")
  case True
  then show ?thesis by (simp add: show_nat_zero)
next
  case False
  then show ?thesis using show_nat_hd [of n] by simp
qed

lemma show_nat_not_minus: "hd (show_nat n) \<noteq> CHR ''-''"
proof -
  have "is_digit (hd (show_nat n))"
    using show_nat_digits [of n] show_nat_nonempty [of n]
    by (cases "show_nat n") (simp_all)
  moreover have "\<not> is_digit (CHR ''-'')"
    by (simp add: is_digit_def digit_val_def)
  ultimately show ?thesis by metis
qed

lemma scan_digits_show_nat:
  assumes "number_end r"
  shows "scan_digits neg (show_nat n @ r) =
    Some (Finite (if neg then - real n else real n), r)"
proof -
  have r: "\<not> (r \<noteq> [] \<and> hd r \<in> set ''.eE'')"
    using assms by (cases r) (auto simp: number_end_def)
  show ?thesis
    unfolding scan_digits_def takeWhile_digits [OF assms] dropWhile_digits [OF assms] Let_def
    using show_nat_leading [of n] r
    by (simp add: show_nat_nonempty read_show_nat)
qed

lemma integer_scan_toString:
  assumes "number_end r"
  shows "integer_scan (integer_toString (Finite (of_int i)) @ r) = Some (Finite (of_int i), r)"
proof (cases "i < 0")
  case True
  then have "real (nat (- i)) = - of_int i"
    by simp
  with True show ?thesis
    by (simp add: integer_scan_def integer_toString_def scan_digits_show_nat [OF assms]
          del: of_nat_nat)
next
  case False
  obtain c cs where sn: "show_nat (nat i) = c # cs"
    using show_nat_nonempty [of "nat i"] by (cases "show_nat (nat i)") auto
  have c: "c \<noteq> CHR ''-''" using show_nat_not_minus [of "nat i"] sn by simp
  have "integer_scan (show_nat (nat i) @ r) = scan_digits False (show_nat (nat i) @ r)"
    using c by (simp add: integer_scan_def sn)
  with False show ?thesis
    by (simp add: integer_toString_def scan_digits_show_nat [OF assms])
qed

lemma integer_toString_start:
  "\<exists>c cs. integer_toString (Finite (of_int i)) = c # cs \<and> (c = CHR ''-'' \<or> is_digit c)"
proof (cases "i < 0")
  case True
  then show ?thesis by (simp add: integer_toString_def)
next
  case False
  obtain c cs where sn: "show_nat (nat i) = c # cs"
    using show_nat_nonempty [of "nat i"] by (cases "show_nat (nat i)") auto
  have "is_digit c" using show_nat_digits [of "nat i"] sn by simp
  with False sn show ?thesis by (simp add: integer_toString_def)
qed

lemma hex_val_hex_char: "d < 16 \<Longrightarrow> hex_val (hex_char d) = Some d"
proof -
  assume d: "d < 16"
  let ?xs = "''0123456789abcdefABCDEF''"
  let ?ys = "[0, 1, 2, 3, 4, 5, 6, 7, 8, 9, 10, 11, 12, 13, 14, 15, 10, 11, 12, 13, 14, 15] :: nat list"
  have ys: "?ys = [0 ..< 16] @ [10 ..< 16]"
    by (simp add: upt_conv_Cons)
  have xs: "?xs = ''0123456789abcdef'' @ ''ABCDEF''"
    by simp
  have "map_of (zip ?xs ?ys) (?xs ! d) = Some (?ys ! d)"
    using d by (intro map_of_zip_nth) simp_all
  moreover have "?xs ! d = hex_char d"
    unfolding xs hex_char_def using d by (simp add: nth_append del: append.simps)
  moreover have "?ys ! d = d"
    unfolding ys using d by (simp add: nth_append del: upt_rec_numeral)
  ultimately show ?thesis
    by (simp only: hex_val_def)
qed

lemma hex_val_zero: "hex_val (CHR ''0'') = Some 0"
  by (simp add: hex_val_def)

lemma parse_chars_QuoteJSONChar:
  "parse_chars (QuoteJSONChar c @ rest) = map_option (\<lambda>(s, r). (c # s, r)) (parse_chars rest)"
proof -
  consider (dq) "c = dquote" | (bs) "c = bslash"
    | (b) "c = CHR 0x08" | (f) "c = CHR 0x0C" | (n) "c = CHR 0x0A" | (r) "c = CHR 0x0D"
    | (t) "c = CHR 0x09"
    | (ctl) "c \<noteq> dquote" "c \<noteq> bslash" "c \<noteq> CHR 0x08" "c \<noteq> CHR 0x0C" "c \<noteq> CHR 0x0A"
        "c \<noteq> CHR 0x0D" "c \<noteq> CHR 0x09" "(of_char c :: nat) < 32"
    | (plain) "c \<noteq> dquote" "c \<noteq> bslash" "c \<noteq> CHR 0x08" "c \<noteq> CHR 0x0C" "c \<noteq> CHR 0x0A"
        "c \<noteq> CHR 0x0D" "c \<noteq> CHR 0x09" "\<not> (of_char c :: nat) < 32"
    by blast
  then show ?thesis
  proof cases
    case ctl
    let ?n = "of_char c :: nat"
    have hi: "hex_val (hex_char (?n div 16)) = Some (?n div 16)"
      using ctl(8) by (intro hex_val_hex_char) simp
    have lo: "hex_val (hex_char (?n mod 16)) = Some (?n mod 16)"
      by (intro hex_val_hex_char) simp
    have q: "QuoteJSONChar c =
      [bslash, CHR ''u'', CHR ''0'', CHR ''0'', hex_char (?n div 16), hex_char (?n mod 16)]"
      using ctl by (simp add: QuoteJSONChar_def)
    show ?thesis
      unfolding q using ctl(8)
      by (simp add: hi lo hex_val_zero dquote_def bslash_def)
  qed (simp_all add: QuoteJSONChar_def dquote_def bslash_def unescape_def)
qed

lemma parse_chars_quoted:
  "parse_chars (concat (map QuoteJSONChar s) @ dquote # r) = Some (s, r)"
  by (induction s) (simp_all add: parse_chars_QuoteJSONChar)


lemma is_digit_set: "is_digit c \<Longrightarrow> c \<in> set ''0123456789''"
  by (auto simp: is_digit_def digit_val_def split: if_splits)

lemma is_digit_value_start: "is_digit c \<Longrightarrow> value_start c"
  by (auto dest!: is_digit_set simp: value_start_def is_ws_def)

lemma is_digit_or_minus_start: "c = CHR ''-'' \<or> is_digit c \<Longrightarrow> value_start c"
  using is_digit_value_start by (auto simp: value_start_def is_ws_def)

lemma json_text_start:
  assumes "json_safe v" and "\<forall>x\<in>set (numbers_of v). reads_back numToString scanNumber x"
  shows "\<exists>c cs. json_text numToString v = c # cs \<and> value_start c"
proof (cases v)
  case (JNum x)
  with assms obtain c cs where "numToString x = c # cs" "c = CHR ''-'' \<or> is_digit c"
    by (auto simp: reads_back_def)
  moreover from assms(1) JNum obtain r where "x = Finite r" by (cases x) auto
  ultimately show ?thesis
    using JNum is_digit_or_minus_start [of c] by (simp add: json_text_def)
next
  case JUndefined
  with assms(1) show ?thesis by simp
qed (simp_all add: json_text_def value_start_def is_ws_def QuoteJSONString_def dquote_def)

lemma skip_ws_start: "value_start c \<Longrightarrow> skip_ws (c # cs) = c # cs"
  by (simp add: skip_ws_def value_start_def)

lemma json_safe_stringify: "json_safe v \<Longrightarrow> JSON_stringify numToString v = Some (json_text numToString v)"
  by (cases v) (simp_all add: json_text_def)

lemma join_commas_Cons: "ts \<noteq> [] \<Longrightarrow> join_commas (t # ts) = t @ CHR '','' # join_commas ts"
  by (cases ts) simp_all

lemma delimited_simps [simp]:
  "delimited []" "delimited (CHR '','' # r)" "delimited (CHR '']'' # r)" "delimited (CHR ''}'' # r)"
  by (simp_all add: delimited_def)

lemma delimiters_not_digits:
  "\<not> is_digit (CHR '','')" "\<not> is_digit (CHR '']'')" "\<not> is_digit (CHR ''}'')"
  by (simp_all add: is_digit_def digit_val_def)

lemma delimited_number_end: "delimited r \<Longrightarrow> number_end r"
proof (cases r)
  case Nil
  then show ?thesis by (simp add: number_end_def)
next
  case (Cons c cs)
  assume "delimited r"
  then have "c = CHR '','' \<or> c = CHR '']'' \<or> c = CHR ''}''"
    by (simp add: Cons delimited_def)
  then show ?thesis
    using delimiters_not_digits by (auto simp: Cons number_end_def)
qed

lemma skip_ws_simps [simp]:
  "skip_ws (CHR '','' # r) = CHR '','' # r" "skip_ws (CHR '']'' # r) = CHR '']'' # r"
  "skip_ws (CHR ''}'' # r) = CHR ''}'' # r" "skip_ws (CHR '':'' # r) = CHR '':'' # r"
  "skip_ws (dquote # r) = dquote # r"
  by (simp_all add: skip_ws_def is_ws_def dquote_def)

lemma parse_elems_join:
  assumes "xs \<noteq> []"
    and "\<And>x n r. x \<in> set xs \<Longrightarrow> length (json_text numToString x) \<le> n \<Longrightarrow> delimited r \<Longrightarrow>
           parse_value scanNumber n (json_text numToString x @ r) = Some (x, r)"
    and "length (join_commas (map (json_text numToString) xs)) < n"
  shows "parse_elems scanNumber n (join_commas (map (json_text numToString) xs) @ CHR '']'' # r) = Some (xs, r)"
  using assms
proof (induction xs arbitrary: n rule: list_nonempty_induct)
  case (single x)
  then obtain m where n: "n = Suc m" and m: "length (json_text numToString x) \<le> m"
    by (cases n) auto
  have "parse_value scanNumber m (json_text numToString x @ CHR '']'' # r) = Some (x, CHR '']'' # r)"
    using single(1) [of x m "CHR '']'' # r"] m by simp
  then show ?case by (simp add: n)
next
  case (cons x xs)
  let ?rest = "join_commas (map (json_text numToString) xs) @ CHR '']'' # r"
  have j: "join_commas (json_text numToString x # map (json_text numToString) xs)
      = json_text numToString x @ CHR '','' # join_commas (map (json_text numToString) xs)"
    using cons(1) by (simp add: join_commas_Cons)
  have "length (json_text numToString x) + length (join_commas (map (json_text numToString) xs)) + 1 < n"
    using cons(4) by (simp add: j)
  then obtain m where n: "n = Suc m"
    and m: "length (json_text numToString x) \<le> m" "length (join_commas (map (json_text numToString) xs)) < m"
    by (cases n) auto
  have v: "parse_value scanNumber m (json_text numToString x @ CHR '','' # ?rest) = Some (x, CHR '','' # ?rest)"
    using cons(3) [of x m "CHR '','' # ?rest"] m by simp
  have e: "parse_elems scanNumber m ?rest = Some (xs, r)"
    using cons(2) [OF _ m(2)] cons(3) by simp
  show ?case by (simp add: n j v e)
qed

lemma parse_members_step:
  assumes "parse_value scanNumber m (json_text numToString (snd p) @ rest) = Some (snd p, rest)"
  shows "parse_members scanNumber (Suc m) acc (member_text numToString p @ rest) =
    (case skip_ws rest of
       [] \<Rightarrow> None
     | d # ds \<Rightarrow>
         if d = CHR '','' then parse_members scanNumber m (put_member (fst p) (snd p) acc) ds
         else if d = CHR ''}'' then Some (put_member (fst p) (snd p) acc, ds)
         else None)"
  using assms
  by (simp add: member_text_def QuoteJSONString_def parse_chars_quoted)

lemma parse_members_join:
  assumes "ps \<noteq> []"
    and "\<And>p n r. p \<in> set ps \<Longrightarrow> length (json_text numToString (snd p)) \<le> n \<Longrightarrow> delimited r \<Longrightarrow>
           parse_value scanNumber n (json_text numToString (snd p) @ r) = Some (snd p, r)"
    and "length (join_commas (map (member_text numToString) ps)) < n"
  shows "parse_members scanNumber n acc (join_commas (map (member_text numToString) ps) @ CHR ''}'' # r) = Some (put_all acc ps, r)"
  using assms
proof (induction ps arbitrary: n acc rule: list_nonempty_induct)
  case (single p)
  then obtain m where n: "n = Suc m" and m: "length (json_text numToString (snd p)) \<le> m"
    by (cases n) (auto simp: member_text_def)
  have "parse_value scanNumber m (json_text numToString (snd p) @ CHR ''}'' # r) = Some (snd p, CHR ''}'' # r)"
    using single(1) [of p m "CHR ''}'' # r"] m by simp
  from parse_members_step [OF this, of acc]
  have "parse_members scanNumber (Suc m) acc (member_text numToString p @ CHR ''}'' # r)
      = Some (put_member (fst p) (snd p) acc, r)"
    by (simp del: parse_members.simps)
  then show ?case
    by (simp add: n put_all_def del: parse_members.simps)
next
  case (cons p ps)
  let ?rest = "join_commas (map (member_text numToString) ps) @ CHR ''}'' # r"
  have j: "join_commas (member_text numToString p # map (member_text numToString) ps)
      = member_text numToString p @ CHR '','' # join_commas (map (member_text numToString) ps)"
    using cons(1) by (simp add: join_commas_Cons)
  have "length (member_text numToString p) + length (join_commas (map (member_text numToString) ps)) + 1 < n"
    using cons(4) by (simp add: j)
  then have "length (json_text numToString (snd p)) + length (join_commas (map (member_text numToString) ps)) + 1 < n"
    by (simp add: member_text_def)
  then obtain m where n: "n = Suc m"
    and m: "length (json_text numToString (snd p)) \<le> m" "length (join_commas (map (member_text numToString) ps)) < m"
    by (cases n) auto
  have v: "parse_value scanNumber m (json_text numToString (snd p) @ CHR '','' # ?rest) = Some (snd p, CHR '','' # ?rest)"
    using cons(3) [of p m "CHR '','' # ?rest"] m by simp
  have e: "parse_members scanNumber m (put_member (fst p) (snd p) acc) ?rest
      = Some (put_all (put_member (fst p) (snd p) acc) ps, r)"
    using cons(2) [OF _ m(2)] cons(3) by simp
  from parse_members_step [OF v, of acc]
  have "parse_members scanNumber (Suc m) acc (member_text numToString p @ CHR '','' # ?rest)
      = Some (put_all (put_member (fst p) (snd p) acc) ps, r)"
    using e by (simp del: parse_members.simps)
  then show ?case
    by (simp add: n j put_all_def del: parse_members.simps)
qed

lemma put_all_distinct:
  "distinct (map fst ps) \<Longrightarrow> fst ` set acc \<inter> fst ` set ps = {} \<Longrightarrow> put_all acc ps = acc @ ps"
proof (induction ps arbitrary: acc)
  case Nil
  then show ?case by (simp add: put_all_def)
next
  case (Cons p ps)
  have 1: "put_member (fst p) (snd p) acc = acc @ [p]"
    using Cons.prems by (auto simp: put_member_def)
  have "put_all (acc @ [p]) ps = (acc @ [p]) @ ps"
    using Cons.prems by (intro Cons.IH) auto
  then show ?case by (simp add: put_all_def 1)
qed

lemma members_safe:
  "list_all (\<lambda>p. json_safe (snd p)) ps \<Longrightarrow>
   concat (map (\<lambda>p. case JSON_stringify numToString (snd p) of None \<Rightarrow> []
                  | Some t \<Rightarrow> [QuoteJSONString (fst p) @ CHR '':'' # t]) ps) = map (member_text numToString) ps"
  by (induction ps) (simp_all add: member_text_def json_safe_stringify)

lemma json_text_JArr:
  "json_text numToString (JArr xs) = CHR ''['' # join_commas (map (json_text numToString) xs) @ '']''"
  by (simp add: json_text_def cong: map_cong)

lemma json_text_JObj:
  "list_all (\<lambda>p. json_safe (snd p)) ps \<Longrightarrow>
   json_text numToString (JObj ps) = CHR ''{'' # join_commas (map (member_text numToString) ps) @ ''}''"
  by (simp add: json_text_def members_safe)

lemma join_commas_start:
  "ts \<noteq> [] \<Longrightarrow> hd ts = c # cs \<Longrightarrow> \<exists>ds. join_commas ts = c # ds"
  by (cases ts rule: join_commas.cases) simp_all

lemma parse_value_json_text:
  "json_safe v \<Longrightarrow> \<forall>x\<in>set (numbers_of v). reads_back numToString scanNumber x \<Longrightarrow>
   length (json_text numToString v) \<le> n \<Longrightarrow> delimited r \<Longrightarrow>
   parse_value scanNumber n (json_text numToString v @ r) = Some (v, r)"
proof (induction v arbitrary: n r)
  case JUndefined
  then show ?case by simp
next
  case JNull
  then obtain m where "n = Suc m" by (cases n) (auto simp: json_text_def)
  then show ?case by (simp add: json_text_def skip_ws_def is_ws_def)
next
  case (JBool b)
  then obtain m where "n = Suc m" by (cases n) (auto simp: json_text_def split: if_splits)
  then show ?case by (cases b) (simp_all add: json_text_def skip_ws_def is_ws_def)
next
  case (JNum x)
  then obtain q where x: "x = Finite q" by (cases x) auto
  have rb: "reads_back numToString scanNumber x"
    using JNum(2) by simp
  then obtain c cs where s: "numToString x = c # cs" and d: "c = CHR ''-'' \<or> is_digit c"
    by (auto simp: reads_back_def)
  have t: "json_text numToString (JNum x) = c # cs"
    by (simp add: json_text_def x s [unfolded x])
  have c: "value_start c"
    using d by (rule is_digit_or_minus_start)
  from JNum(3) t obtain m where n: "n = Suc m" by (cases n) auto
  from d have ne: "c \<noteq> CHR ''n''" "c \<noteq> CHR ''t''" "c \<noteq> CHR ''f''" "c \<noteq> dquote"
    "c \<noteq> CHR ''[''" "c \<noteq> CHR ''{''"
    by (auto dest!: is_digit_set simp: dquote_def)
  have "scanNumber (numToString x @ r) = Some (x, r)"
    using rb JNum(4) by (simp add: reads_back_def)
  then have "scanNumber (c # cs @ r) = Some (x, r)"
    by (simp add: s)
  then show ?case
    by (simp add: n t skip_ws_start [OF c] ne)
next
  case (JStr s)
  then obtain m where "n = Suc m" by (cases n) (auto simp: json_text_def QuoteJSONString_def)
  then show ?case
    by (simp add: json_text_def QuoteJSONString_def parse_chars_quoted [unfolded dquote_def]
          dquote_def skip_ws_def is_ws_def)
next
  case (JArr xs)
  have t: "json_text numToString (JArr xs)
      = CHR ''['' # join_commas (map (json_text numToString) xs) @ '']''"
    by (rule json_text_JArr)
  from JArr(4) t obtain m where n: "n = Suc m"
    and m: "length (join_commas (map (json_text numToString) xs)) < m"
    by (cases n) auto
  have safe: "\<And>x. x \<in> set xs \<Longrightarrow> json_safe x"
    using JArr(2) by (simp add: list_all_iff)
  have nums: "\<And>x. x \<in> set xs \<Longrightarrow> \<forall>y\<in>set (numbers_of x). reads_back numToString scanNumber y"
    using JArr(3) by auto
  show ?case
  proof (cases "xs = []")
    case True
    then show ?thesis by (simp add: n json_text_def skip_ws_def is_ws_def dquote_def)
  next
    case False
    have ih: "\<And>x n r. x \<in> set xs \<Longrightarrow> length (json_text numToString x) \<le> n \<Longrightarrow> delimited r \<Longrightarrow>
           parse_value scanNumber n (json_text numToString x @ r) = Some (x, r)"
      using JArr(1) safe nums by blast
    have e: "parse_elems scanNumber m (join_commas (map (json_text numToString) xs) @ CHR '']'' # r)
        = Some (xs, r)"
      by (rule parse_elems_join [OF False ih m])
    have "hd xs \<in> set xs" using False by simp
    then obtain c cs where h: "json_text numToString (hd xs) = c # cs" and c: "value_start c"
      using json_text_start [OF safe nums] by blast
    then obtain ds where j: "join_commas (map (json_text numToString) xs) = c # ds"
      using join_commas_start [of "map (json_text numToString) xs" c cs] False
      by (auto simp: hd_map)
    have "skip_ws (join_commas (map (json_text numToString) xs) @ CHR '']'' # r)
        = c # ds @ CHR '']'' # r"
      by (simp add: j skip_ws_start [OF c])
    moreover have "c \<noteq> CHR '']''" using c by (simp add: value_start_def)
    ultimately show ?thesis
      using e by (simp add: n t skip_ws_def is_ws_def dquote_def)
  qed
next
  case (JObj ps)
  have safe: "list_all (\<lambda>p. json_safe (snd p)) ps" and dist: "distinct (map fst ps)"
    using JObj(2) by simp_all
  have nums: "\<And>p. p \<in> set ps \<Longrightarrow>
      \<forall>y\<in>set (numbers_of (snd p)). reads_back numToString scanNumber y"
    using JObj(3) by auto
  have t: "json_text numToString (JObj ps)
      = CHR ''{'' # join_commas (map (member_text numToString) ps) @ ''}''"
    by (rule json_text_JObj [OF safe])
  from JObj(4) t obtain m where n: "n = Suc m"
    and m: "length (join_commas (map (member_text numToString) ps)) < m"
    by (cases n) auto
  show ?case
  proof (cases "ps = []")
    case True
    then show ?thesis by (simp add: n json_text_def skip_ws_def is_ws_def dquote_def)
  next
    case False
    have ih: "\<And>p n r. p \<in> set ps \<Longrightarrow> length (json_text numToString (snd p)) \<le> n \<Longrightarrow>
           delimited r \<Longrightarrow>
           parse_value scanNumber n (json_text numToString (snd p) @ r) = Some (snd p, r)"
    proof -
      fix p n r
      assume p: "p \<in> set ps" and l: "length (json_text numToString (snd p)) \<le> n"
        and d: "delimited r"
      have s: "json_safe (snd p)" using safe p by (simp add: list_all_iff)
      have "snd p \<in> Basic_BNFs.snds p" by (cases p) simp
      then show "parse_value scanNumber n (json_text numToString (snd p) @ r) = Some (snd p, r)"
        using JObj(1) [OF p _ s nums [OF p] l d] by blast
    qed
    have e: "parse_members scanNumber m [] (join_commas (map (member_text numToString) ps) @ CHR ''}'' # r)
        = Some (put_all [] ps, r)"
      by (rule parse_members_join [OF False ih m])
    have pa: "put_all [] ps = ps" using put_all_distinct [OF dist, of "[]"] by simp
    obtain ds where j: "join_commas (map (member_text numToString) ps) = dquote # ds"
      using join_commas_start [of "map (member_text numToString) ps" dquote] False
      by (auto simp: hd_map member_text_def QuoteJSONString_def)
    have "skip_ws (join_commas (map (member_text numToString) ps) @ CHR ''}'' # r)
        = dquote # ds @ CHR ''}'' # r"
      by (simp add: j)
    moreover have "dquote \<noteq> CHR ''}''" by (simp add: dquote_def)
    ultimately show ?thesis
      using e pa by (simp add: n t skip_ws_def is_ws_def dquote_def)
  qed
qed

lemma JSON_parse_stringify:
  assumes "json_safe v" and "\<forall>x\<in>set (numbers_of v). reads_back numToString scanNumber x"
  shows "\<exists>t. JSON_stringify numToString v = Some t \<and> JSON_parse scanNumber t = Some v"
proof -
  have "parse_value scanNumber (length (json_text numToString v)) (json_text numToString v @ [])
      = Some (v, [])"
    by (rule parse_value_json_text [OF assms]) simp_all
  then have "JSON_parse scanNumber (json_text numToString v) = Some v"
    by (simp add: JSON_parse_def skip_ws_def)
  then show ?thesis using json_safe_stringify [OF assms(1)] by simp
qed

text \<open>
  The printer and the reader of integers read every integer back, and the stand-ins of the
  instances read the price back.
\<close>

lemma integer_reads_back: "reads_back integer_toString integer_scan (Finite (of_int i))"
  unfolding reads_back_def
  using integer_toString_start [of i] integer_scan_toString [OF delimited_number_end, of _ i]
  by blast

lemma test_reads_back_price: "reads_back test_numToString test_scanNumber (Finite (1999 / 100))"
  by (simp add: reads_back_def test_numToString_def test_scanNumber_def is_digit_def digit_val_def)

section \<open>The webhook validator\<close>

lemma truthy_present: "truthy payload \<Longrightarrow> payload \<noteq> JUndefined \<and> payload \<noteq> JNull"
  by (cases payload) simp_all

lemma mapKeyValue_returns:
  "\<forall>key\<in>set keys. \<exists>s. toStr (js_get payload key) = Inr s \<Longrightarrow>
   mapKeyValue toStr payload keys
     = Inr (map (\<lambda>key. key @ ''='' @ projr (toStr (js_get payload key))) keys)"
  by (induction keys) auto

lemma mapKeyValue_throws_at:
  "key \<in> set keys \<Longrightarrow> toStr (js_get payload key) = Inl e \<Longrightarrow>
   \<exists>e'. mapKeyValue toStr payload keys = Inl e'"
  by (induction keys) (auto split: sum.splits)

lemma mapKeyValue_throws:
  "\<exists>key\<in>set keys. \<exists>e. toStr (js_get payload key) = Inl e \<Longrightarrow>
   \<exists>e. mapKeyValue toStr payload keys = Inl e"
  using mapKeyValue_throws_at by blast

lemma test_validPayload_keys:
  "sort (Object_keys test_validPayload) = [''ref_command'', ''status'', ''token'', ''type'']"
  by code_simp

lemma test_validPayload_pairs:
  "mapKeyValue (js_toString integer_toString) test_validPayload
     (sort (Object_keys test_validPayload))
   = Inr [''ref_command=order-123'', ''status=completed'', ''token=payment-123'',
          ''type=payment_success'']"
  unfolding test_validPayload_keys
  by (simp add: test_validPayload_def js_get_def)

lemma test_throwingPayload_keys:
  "sort (Object_keys test_throwingPayload)
   = [''extra'', ''ref_command'', ''status'', ''token'', ''type'']"
  by code_simp

lemma test_throwingPayload_pairs:
  "mapKeyValue (js_toString integer_toString) test_throwingPayload
     (sort (Object_keys test_throwingPayload))
   = Inl (TypeError ''Cannot convert object to primitive value'')"
  unfolding test_throwingPayload_keys
  by (simp add: test_throwingPayload_def js_get_def)

text \<open>
  C1, as the code has it. For every payload, headers and optional secret,
  \<open>validatePaytechWebhook\<close> does the first of: return invalid "Empty payload" when the
  payload is falsy (\<^verbatim>\<open>undefined\<close>, \<^verbatim>\<open>null\<close>, but also 0, the empty string,
  \<^verbatim>\<open>false\<close>); return invalid "Missing required field: X" for the first X of token,
  ref_command, type, status whose value in the payload is absent or falsy; return valid
  when no secret is given or it is empty; return invalid "Missing signature header" when
  neither x-paytech-signature nor X-Paytech-Signature has a non-empty value; otherwise it
  converts the values of the payload's keys, in sorted order, to strings as a template
  literal does, and throws the exception of the first conversion that throws; when all
  return, it returns invalid "Invalid signature" if the signature (the lower-case header
  when it is non-empty, else the other) differs from the HMAC, keyed by the secret, of the
  pairs key=value joined with "&", and valid if not.
\<close>

theorem validatePaytechWebhook_decision:
  "validatePaytechWebhook hmacSha256Hex toStr payload headers webhookSecret =
     (if \<not> truthy payload then Inr (invalid ''Empty payload'')
      else if \<not> truthy (js_get payload ''token'')
        then Inr (invalid ''Missing required field: token'')
      else if \<not> truthy (js_get payload ''ref_command'')
        then Inr (invalid ''Missing required field: ref_command'')
      else if \<not> truthy (js_get payload ''type'')
        then Inr (invalid ''Missing required field: type'')
      else if \<not> truthy (js_get payload ''status'')
        then Inr (invalid ''Missing required field: status'')
      else if \<not> str_truthy webhookSecret then Inr valid
      else if \<not> str_truthy (headers ''x-paytech-signature'')
              \<and> \<not> str_truthy (headers ''X-Paytech-Signature'')
        then Inr (invalid ''Missing signature header'')
      else
        (case mapKeyValue toStr payload (sort (Object_keys payload)) of
           Inl exception \<Rightarrow> Inl exception
         | Inr pairs \<Rightarrow>
             if the (str_or (headers ''x-paytech-signature'') (headers ''X-Paytech-Signature''))
                \<noteq> hmacSha256Hex (the webhookSecret) (join ''&'' pairs)
             then Inr (invalid ''Invalid signature'')
             else Inr valid))
   \<and> ((\<forall>key\<in>set keys. \<exists>s. toStr (js_get payload key) = Inr s) \<longrightarrow>
        mapKeyValue toStr payload keys
          = Inr (map (\<lambda>key. key @ ''='' @ projr (toStr (js_get payload key))) keys))
   \<and> ((\<exists>key\<in>set keys. \<exists>e. toStr (js_get payload key) = Inl e) \<longrightarrow>
        (\<exists>e. mapKeyValue toStr payload keys = Inl e))"
proof -
  have fields: "checkRequiredFields payload requiredFields =
     (if \<not> truthy (js_get payload ''token'')
        then Some (invalid ''Missing required field: token'')
      else if \<not> truthy (js_get payload ''ref_command'')
        then Some (invalid ''Missing required field: ref_command'')
      else if \<not> truthy (js_get payload ''type'')
        then Some (invalid ''Missing required field: type'')
      else if \<not> truthy (js_get payload ''status'')
        then Some (invalid ''Missing required field: status'')
      else None)"
    by (simp add: requiredFields_def)
  have decision: "validatePaytechWebhook hmacSha256Hex toStr payload headers webhookSecret =
     (if \<not> truthy payload then Inr (invalid ''Empty payload'')
      else if \<not> truthy (js_get payload ''token'')
        then Inr (invalid ''Missing required field: token'')
      else if \<not> truthy (js_get payload ''ref_command'')
        then Inr (invalid ''Missing required field: ref_command'')
      else if \<not> truthy (js_get payload ''type'')
        then Inr (invalid ''Missing required field: type'')
      else if \<not> truthy (js_get payload ''status'')
        then Inr (invalid ''Missing required field: status'')
      else if \<not> str_truthy webhookSecret then Inr valid
      else if \<not> str_truthy (headers ''x-paytech-signature'')
              \<and> \<not> str_truthy (headers ''X-Paytech-Signature'')
        then Inr (invalid ''Missing signature header'')
      else
        (case mapKeyValue toStr payload (sort (Object_keys payload)) of
           Inl exception \<Rightarrow> Inl exception
         | Inr pairs \<Rightarrow>
             if the (str_or (headers ''x-paytech-signature'') (headers ''X-Paytech-Signature''))
                \<noteq> hmacSha256Hex (the webhookSecret) (join ''&'' pairs)
             then Inr (invalid ''Invalid signature'')
             else Inr valid))"
  proof (cases "truthy payload")
    case False
    then show ?thesis by (simp add: validatePaytechWebhook_def)
  next
    case True
    note present = truthy_present [OF True]
    show ?thesis
      unfolding validatePaytechWebhook_def fields
      using True present
      by (cases webhookSecret; cases "headers ''x-paytech-signature''";
          cases "headers ''X-Paytech-Signature''")
         (auto simp: str_or_def verifyWebhookSignature_def createWebhookSignature_def Let_def
               split: sum.splits)
  qed
  show ?thesis
    using decision mapKeyValue_returns [of keys toStr payload]
      mapKeyValue_throws [of keys toStr payload]
    by blast
qed

theorem validatePaytechWebhook_decision_witness:
  "validatePaytechWebhook test_hmac (js_toString integer_toString) test_validPayload
     [''x-paytech-signature'' \<mapsto>
        ''test_webhook_secret:ref_command=order-123&status=completed&token=payment-123&type=payment_success'']
     (Some ''test_webhook_secret'') = Inr valid
   \<and> validatePaytechWebhook test_hmac (js_toString integer_toString) test_validPayload
     [''X-Paytech-Signature'' \<mapsto> ''invalid-signature'']
     (Some ''test_webhook_secret'') = Inr (invalid ''Invalid signature'')
   \<and> validatePaytechWebhook test_hmac (js_toString integer_toString) test_validPayload Map.empty
     (Some ''test_webhook_secret'') = Inr (invalid ''Missing signature header'')
   \<and> validatePaytechWebhook test_hmac (js_toString integer_toString)
     (JObj [(''ref_command'', JStr ''order-123'')]) Map.empty
     None = Inr (invalid ''Missing required field: token'')
   \<and> validatePaytechWebhook test_hmac (js_toString integer_toString) JNull Map.empty None
       = Inr (invalid ''Empty payload'')
   \<and> validatePaytechWebhook test_hmac (js_toString integer_toString) test_throwingPayload
     [''x-paytech-signature'' \<mapsto> ''invalid-signature'']
     (Some ''test_webhook_secret'') = Inl (TypeError ''Cannot convert object to primitive value'')"
proof -
  note decision = validatePaytechWebhook_decision [THEN conjunct1]
  have t: "truthy test_validPayload" "truthy (js_get test_validPayload ''token'')"
    "truthy (js_get test_validPayload ''ref_command'')" "truthy (js_get test_validPayload ''type'')"
    "truthy (js_get test_validPayload ''status'')"
    by (simp_all add: test_validPayload_def js_get_def)
  have u: "truthy test_throwingPayload" "truthy (js_get test_throwingPayload ''token'')"
    "truthy (js_get test_throwingPayload ''ref_command'')"
    "truthy (js_get test_throwingPayload ''type'')"
    "truthy (js_get test_throwingPayload ''status'')"
    by (simp_all add: test_throwingPayload_def js_get_def)
  have 1: "validatePaytechWebhook test_hmac (js_toString integer_toString) test_validPayload
     [''x-paytech-signature'' \<mapsto>
        ''test_webhook_secret:ref_command=order-123&status=completed&token=payment-123&type=payment_success'']
     (Some ''test_webhook_secret'') = Inr valid"
    unfolding decision test_validPayload_pairs
    by (simp add: t str_or_def test_hmac_def)
  have 2: "validatePaytechWebhook test_hmac (js_toString integer_toString) test_validPayload
     [''X-Paytech-Signature'' \<mapsto> ''invalid-signature'']
     (Some ''test_webhook_secret'') = Inr (invalid ''Invalid signature'')"
    unfolding decision test_validPayload_pairs
    by (simp add: t str_or_def test_hmac_def)
  have 3: "validatePaytechWebhook test_hmac (js_toString integer_toString) test_validPayload Map.empty
     (Some ''test_webhook_secret'') = Inr (invalid ''Missing signature header'')"
    unfolding decision
    by (simp add: t)
  have 4: "validatePaytechWebhook test_hmac (js_toString integer_toString)
     (JObj [(''ref_command'', JStr ''order-123'')]) Map.empty
     None = Inr (invalid ''Missing required field: token'')"
    unfolding decision
    by (simp add: js_get_def)
  have 5: "validatePaytechWebhook test_hmac (js_toString integer_toString) JNull Map.empty None
       = Inr (invalid ''Empty payload'')"
    unfolding decision
    by simp
  have 6: "validatePaytechWebhook test_hmac (js_toString integer_toString) test_throwingPayload
     [''x-paytech-signature'' \<mapsto> ''invalid-signature'']
     (Some ''test_webhook_secret'') = Inl (TypeError ''Cannot convert object to primitive value'')"
    unfolding decision test_throwingPayload_pairs
    by (simp add: u)
  show ?thesis
    using 1 2 3 4 5 6 by (intro conjI)
qed

text \<open>
  The procedure read literally, \<open>spec_validatePaytechWebhook\<close>, accepts a payload that has
  every required field (the reference under both of its names) and whose token is the empty
  string; the code rejects it.
\<close>

theorem validatePaytechWebhook_absent_counterexample:
  "validatePaytechWebhook test_hmac (js_toString integer_toString)
     (JObj [(''token'', JStr ''''), (''ref_command'', JStr ''order-123''),
            (''reference'', JStr ''order-123''),
            (''type'', JStr ''payment_success''), (''status'', JStr ''completed'')])
     Map.empty None
   = Inr (invalid ''Missing required field: token'')
   \<and> spec_validatePaytechWebhook test_hmac (js_toString integer_toString)
     (JObj [(''token'', JStr ''''), (''ref_command'', JStr ''order-123''),
            (''reference'', JStr ''order-123''),
            (''type'', JStr ''payment_success''), (''status'', JStr ''completed'')])
     Map.empty None
   = Inr valid
   \<and> invalid ''Missing required field: token'' \<noteq> valid"
  by (simp add: validatePaytechWebhook_def spec_validatePaytechWebhook_def requiredFields_def
        js_get_def invalid_def valid_def)

section \<open>The status mapper\<close>

lemma toLowerCase_words:
  "toLowerCase ''completed'' = ''completed''"
  "toLowerCase ''success'' = ''success''"
  "toLowerCase ''pending'' = ''pending''"
  "toLowerCase ''waiting'' = ''waiting''"
  "toLowerCase ''canceled'' = ''canceled''"
  "toLowerCase ''cancelled'' = ''cancelled''"
  "toLowerCase ''refunded'' = ''refunded''"
  by (simp_all add: toLowerCase_def toLowerChar_def)

text \<open>
  C2. \<open>mapPaytechStatus\<close> is a total function into the canonical statuses (it has no error
  result). A response whose success flag is 0 maps to failed. Otherwise (the flag is truthy,
  as the flag 1 is) the status string is matched case-insensitively: completed or success
  gives completed, pending or waiting gives pending, canceled or cancelled gives canceled,
  refunded gives refunded, and every other string, like an absent status, gives failed.
\<close>

theorem mapPaytechStatus_total_table:
  "mapPaytechStatus r \<in> {PENDING, COMPLETED, FAILED, CANCELED, REFUNDED, PARTIALLY_REFUNDED}
   \<and> (sr_success r = Finite 0 \<longrightarrow> mapPaytechStatus r = FAILED)
   \<and> (number_truthy (sr_success r) \<longrightarrow>
        (sr_status r = None \<longrightarrow> mapPaytechStatus r = FAILED)
      \<and> (\<forall>s. sr_status r = Some s \<longrightarrow>
            ((same_ignoring_case s ''completed'' \<or> same_ignoring_case s ''success'')
               \<longrightarrow> mapPaytechStatus r = COMPLETED)
          \<and> ((same_ignoring_case s ''pending'' \<or> same_ignoring_case s ''waiting'')
               \<longrightarrow> mapPaytechStatus r = PENDING)
          \<and> ((same_ignoring_case s ''canceled'' \<or> same_ignoring_case s ''cancelled'')
               \<longrightarrow> mapPaytechStatus r = CANCELED)
          \<and> (same_ignoring_case s ''refunded'' \<longrightarrow> mapPaytechStatus r = REFUNDED)
          \<and> (\<not> (same_ignoring_case s ''completed'' \<or> same_ignoring_case s ''success''
                  \<or> same_ignoring_case s ''pending'' \<or> same_ignoring_case s ''waiting''
                  \<or> same_ignoring_case s ''canceled'' \<or> same_ignoring_case s ''cancelled''
                  \<or> same_ignoring_case s ''refunded'')
               \<longrightarrow> mapPaytechStatus r = FAILED)))"
proof -
  have range: "mapPaytechStatus r \<in> {PENDING, COMPLETED, FAILED, CANCELED, REFUNDED, PARTIALLY_REFUNDED}"
    by (cases "mapPaytechStatus r") simp_all
  have zero: "sr_success r = Finite 0 \<longrightarrow> mapPaytechStatus r = FAILED"
    by (simp add: mapPaytechStatus_def)
  have absent: "number_truthy (sr_success r) \<longrightarrow> sr_status r = None \<longrightarrow> mapPaytechStatus r = FAILED"
    by (simp add: mapPaytechStatus_def)
  have table: "mapPaytechStatus r = X" if "number_truthy (sr_success r)" "sr_status r = Some s"
    "X = (if toLowerCase s = ''completed'' \<or> toLowerCase s = ''success'' then COMPLETED
             else if toLowerCase s = ''pending'' \<or> toLowerCase s = ''waiting'' then PENDING
             else if toLowerCase s = ''canceled'' \<or> toLowerCase s = ''cancelled'' then CANCELED
             else if toLowerCase s = ''refunded'' then REFUNDED
             else FAILED)" for s X
    using that by (simp add: mapPaytechStatus_def)
  show ?thesis
    using range zero absent
    by (auto simp: same_ignoring_case_def toLowerCase_words dest!: table [OF _ _ refl])
qed

theorem mapPaytechStatus_total_table_witness:
  "mapPaytechStatus \<lparr> sr_success = Finite 1, sr_status = Some ''SUCCESS'', sr_error = None,
      sr_ref_command = None, sr_amount = None, sr_currency = None, sr_date = None,
      sr_transaction_id = None, sr_customer_info = None \<rparr> = COMPLETED
   \<and> mapPaytechStatus \<lparr> sr_success = Finite 0, sr_status = Some ''completed'', sr_error = None,
      sr_ref_command = None, sr_amount = None, sr_currency = None, sr_date = None,
      sr_transaction_id = None, sr_customer_info = None \<rparr> = FAILED"
proof -
  let ?r = "\<lparr> sr_success = Finite 1, sr_status = Some ''SUCCESS'', sr_error = None,
      sr_ref_command = None, sr_amount = None, sr_currency = None, sr_date = None,
      sr_transaction_id = None, sr_customer_info = None \<rparr>"
  let ?z = "\<lparr> sr_success = Finite 0, sr_status = Some ''completed'', sr_error = None,
      sr_ref_command = None, sr_amount = None, sr_currency = None, sr_date = None,
      sr_transaction_id = None, sr_customer_info = None \<rparr>"
  have ci: "same_ignoring_case ''SUCCESS'' ''success''"
    by (simp add: same_ignoring_case_def toLowerCase_def toLowerChar_def)
  have "mapPaytechStatus ?r = COMPLETED"
    using mapPaytechStatus_total_table [of ?r] ci by simp
  moreover have "mapPaytechStatus ?z = FAILED"
    using mapPaytechStatus_total_table [of ?z] by simp
  ultimately show ?thesis by simp
qed

section \<open>The adapter before and after initialization\<close>

text \<open>
  C3. On an adapter that is not initialized, as a new one is, \<open>createPayment\<close>,
  \<open>verifyPayment\<close> and \<open>refundPayment\<close> throw the error "Gateway not initialized. Call
  initialize() first.", whatever the request, the payment id and the network are: no
  validation error is thrown in its place, and the list of HTTP calls made is empty.
\<close>

theorem uninitialized_operations_throw:
  assumes "\<not> initialized this"
  shows "createPayment http numToString now this request
           = (Inl (Error ''Gateway not initialized. Call initialize() first.''), [])
       \<and> verifyPayment http' this paymentId
           = (Inl (Error ''Gateway not initialized. Call initialize() first.''), [])
       \<and> refundPayment http'' parseFloat dateParse now this paymentId amount
           = (Inl (Error ''Gateway not initialized. Call initialize() first.''), [])"
  using assms
  by (simp add: createPayment_def verifyPayment_def refundPayment_def notInitialized_def)

theorem uninitialized_operations_throw_witness:
  "\<not> initialized constructor
   \<and> createPayment (\<lambda>call. Rejected test_networkError) integer_toString (DateMs 0) constructor
        (test_paymentRequest \<lparr> req_reference := [], req_amount := Finite 0 \<rparr>)
       = (Inl (Error ''Gateway not initialized. Call initialize() first.''), [])
   \<and> verifyPayment (\<lambda>call. Rejected test_networkError) constructor []
       = (Inl (Error ''Gateway not initialized. Call initialize() first.''), [])
   \<and> refundPayment (\<lambda>call. Rejected test_networkError) test_parseFloat test_dateParse (DateMs 0)
        constructor [] None
       = (Inl (Error ''Gateway not initialized. Call initialize() first.''), [])"
proof -
  have u: "\<not> initialized constructor"
    by (simp add: constructor_def)
  show ?thesis
    using u uninitialized_operations_throw [OF u] by simp
qed

text \<open>
  C4. On an initialized adapter and a non-empty payment id, when the GET of the status
  rejects: with no response at all (the call failed in transport), \<open>verifyPayment\<close> throws
  the error "Failed to verify payment: ..."; with an axios error whose response has status
  404, it returns \<open>FAILED\<close> and throws nothing.
\<close>

theorem verifyPayment_transport_failure_and_not_found:
  assumes "initialized this" and "paymentId \<noteq> []"
    and "http (HttpGet (PAYTECH_ENDPOINTS_CHECK_STATUS @ ''/'' @ paymentId) (getHeaders this))
           = Rejected error"
  shows "(rj_response error = None \<longrightarrow>
            verifyPayment http this paymentId
              = (Inl (Error (''Failed to verify payment: '' @ errorMessageOf error)),
                 [HttpGet (PAYTECH_ENDPOINTS_CHECK_STATUS @ ''/'' @ paymentId) (getHeaders this)]))
       \<and> (rj_isAxiosError error
            \<and> (\<exists>response. rj_response error = Some response \<and> er_status response = Finite 404) \<longrightarrow>
            verifyPayment http this paymentId
              = (Inr FAILED,
                 [HttpGet (PAYTECH_ENDPOINTS_CHECK_STATUS @ ''/'' @ paymentId) (getHeaders this)]))"
  using assms by (auto simp: verifyPayment_def Let_def)

theorem verifyPayment_transport_failure_and_not_found_witness:
  "initialized (snd (initialize constructor test_config))
   \<and> fst (verifyPayment (\<lambda>call. Rejected test_networkError)
        (snd (initialize constructor test_config)) ''payment-123'')
       = Inl (Error ''Failed to verify payment: Network error'')
   \<and> fst (verifyPayment (\<lambda>call. Rejected test_notFound)
        (snd (initialize constructor test_config)) ''invalid-payment'')
       = Inr FAILED"
proof -
  let ?g = "snd (initialize constructor test_config)"
  have i: "initialized ?g"
    by (simp add: initialize_def Let_def)
  have n: "rj_response test_networkError = None"
    "errorMessageOf test_networkError = ''Network error''"
    by (simp_all add: test_networkError_def errorMessageOf_def)
  have f: "rj_isAxiosError test_notFound
     \<and> (\<exists>response. rj_response test_notFound = Some response \<and> er_status response = Finite 404)"
    by (simp add: test_notFound_def)
  have 1: "fst (verifyPayment (\<lambda>call. Rejected test_networkError) ?g ''payment-123'')
       = Inl (Error ''Failed to verify payment: Network error'')"
    using verifyPayment_transport_failure_and_not_found
      [of ?g "''payment-123''" "\<lambda>call. Rejected test_networkError" test_networkError] i n
    by simp
  have 2: "fst (verifyPayment (\<lambda>call. Rejected test_notFound) ?g ''invalid-payment'') = Inr FAILED"
    using verifyPayment_transport_failure_and_not_found
      [of ?g "''invalid-payment''" "\<lambda>call. Rejected test_notFound" test_notFound] i f
    by simp
  show ?thesis
    using i 1 2 by (intro conjI)
qed

section \<open>The refund mapper\<close>

text \<open>
  C5, as the code has it. For a refund response with success flag 1 the result has success
  true and status refunded. Its amount is the requested amount when one is given that is
  neither 0 nor NaN; when none is given, or the one given is 0 or NaN, and the provider
  reports a non-empty amount, it is that amount parsed as a number.
\<close>

theorem mapFromPaytechRefundResponse_amount:
  assumes "rs_success response = Finite 1"
  shows "rr_success (mapFromPaytechRefundResponse parseFloat dateParse now response requestedAmount)
       \<and> rr_status (mapFromPaytechRefundResponse parseFloat dateParse now response requestedAmount)
           = Some REFUNDED
       \<and> (\<forall>a. requestedAmount = Some a \<and> number_truthy a \<longrightarrow>
            rr_amount (mapFromPaytechRefundResponse parseFloat dateParse now response requestedAmount)
              = Some a)
       \<and> (\<forall>s. (requestedAmount = None \<or> requestedAmount = Some (Finite 0) \<or> requestedAmount = Some NaN)
              \<and> rs_amount response = Some s \<and> s \<noteq> [] \<longrightarrow>
            rr_amount (mapFromPaytechRefundResponse parseFloat dateParse now response requestedAmount)
              = Some (parseFloat s))"
  using assms by (auto simp: mapFromPaytechRefundResponse_def)

theorem mapFromPaytechRefundResponse_amount_witness:
  "rr_amount (mapFromPaytechRefundResponse test_parseFloat test_dateParse (DateMs 0)
      test_refundResponse (Some (Finite 2000))) = Some (Finite 2000)
   \<and> rr_amount (mapFromPaytechRefundResponse test_parseFloat test_dateParse (DateMs 0)
      test_refundResponse None) = Some (Finite 5000)
   \<and> rr_status (mapFromPaytechRefundResponse test_parseFloat test_dateParse (DateMs 0)
      test_refundResponse None) = Some REFUNDED"
proof -
  have s: "rs_success test_refundResponse = Finite 1" "rs_amount test_refundResponse = Some ''5000''"
    by (simp_all add: test_refundResponse_def)
  have 1: "rr_amount (mapFromPaytechRefundResponse test_parseFloat test_dateParse (DateMs 0)
      test_refundResponse (Some (Finite 2000))) = Some (Finite 2000)"
    using mapFromPaytechRefundResponse_amount [OF s(1), of test_parseFloat test_dateParse "DateMs 0"
        "Some (Finite 2000)"]
    by simp
  have 2: "rr_amount (mapFromPaytechRefundResponse test_parseFloat test_dateParse (DateMs 0)
      test_refundResponse None) = Some (Finite 5000)
    \<and> rr_status (mapFromPaytechRefundResponse test_parseFloat test_dateParse (DateMs 0)
      test_refundResponse None) = Some REFUNDED"
    using mapFromPaytechRefundResponse_amount [OF s(1), of test_parseFloat test_dateParse "DateMs 0" None]
      s(2)
    by (simp add: test_parseFloat_def)
  show ?thesis
    using 1 2 by simp
qed

text \<open>
  A requested amount of 0 is given explicitly, and the provider's amount is returned in its
  place.
\<close>

theorem mapFromPaytechRefundResponse_zero_amount_counterexample:
  "rr_amount (mapFromPaytechRefundResponse test_parseFloat test_dateParse (DateMs 0)
      test_refundResponse (Some (Finite 0))) = Some (Finite 5000)
   \<and> Some (Finite 5000) \<noteq> Some (Finite 0)"
  by (simp add: mapFromPaytechRefundResponse_def test_refundResponse_def test_parseFloat_def)

section \<open>The request mapper\<close>

text \<open>
  C6, as the code has it. The request mapper puts the reference of the request in
  \<open>ref_command\<close> only; \<open>command_name\<close>, the description of the order, and \<open>item_name\<close>
  both take the description of the request.
\<close>

theorem mapToPaytechRequest_reference_description:
  "preq_ref_command (mapToPaytechRequest numToString request env) = req_reference request
   \<and> preq_command_name (mapToPaytechRequest numToString request env) = req_description request
   \<and> preq_item_name (mapToPaytechRequest numToString request env) = req_description request"
  by (simp add: mapToPaytechRequest_def)

theorem mapToPaytechRequest_reference_description_witness:
  "preq_ref_command (mapToPaytechRequest integer_toString test_paymentRequest Env_production) = ''order-123''
   \<and> preq_command_name (mapToPaytechRequest integer_toString test_paymentRequest Env_production) = ''Test payment''
   \<and> preq_item_name (mapToPaytechRequest integer_toString test_paymentRequest Env_production) = ''Test payment''"
  using mapToPaytechRequest_reference_description [of integer_toString test_paymentRequest Env_production]
  by (simp add: test_paymentRequest_def)

text \<open>On the request of the tests, \<open>command_name\<close> is not the reference.\<close>

theorem mapToPaytechRequest_command_name_counterexample:
  "preq_command_name (mapToPaytechRequest integer_toString test_paymentRequest Env_test) = ''Test payment''
   \<and> req_reference test_paymentRequest = ''order-123''
   \<and> preq_command_name (mapToPaytechRequest integer_toString test_paymentRequest Env_test)
       \<noteq> req_reference test_paymentRequest"
  by (simp add: mapToPaytechRequest_def test_paymentRequest_def)

section \<open>The webhook mapper\<close>

lemmas PAYTECH_WEBHOOK_EVENT_defs =
  PAYTECH_WEBHOOK_EVENT_PAYMENT_SUCCESS_def PAYTECH_WEBHOOK_EVENT_PAYMENT_FAILED_def
  PAYTECH_WEBHOOK_EVENT_PAYMENT_CANCELED_def PAYTECH_WEBHOOK_EVENT_REFUND_SUCCESS_def
  PAYTECH_WEBHOOK_EVENT_REFUND_FAILED_def

text \<open>
  C7. A payload whose event type is none of payment_success, payment_failed,
  payment_canceled, refund_success, refund_failed is mapped to the event type payment
  success.
\<close>

theorem mapFromPaytechWebhook_default_event_type:
  assumes "wp_type payload \<notin> {''payment_success'', ''payment_failed'', ''payment_canceled'',
             ''refund_success'', ''refund_failed''}"
  shows "ev_type (mapFromPaytechWebhook jsonParse parseFloat dateParse now payload) = PAYMENT_SUCCESS"
  using assms by (simp add: mapFromPaytechWebhook_def Let_def PAYTECH_WEBHOOK_EVENT_defs)

theorem mapFromPaytechWebhook_default_event_type_witness:
  "ev_type (mapFromPaytechWebhook (JSON_parse integer_scan) test_parseFloat test_dateParse (DateMs 0)
      (test_webhookPayload \<lparr> wp_type := ''subscription_created'' \<rparr>)) = PAYMENT_SUCCESS"
  using mapFromPaytechWebhook_default_event_type
    [of "test_webhookPayload \<lparr> wp_type := ''subscription_created'' \<rparr>"
        "JSON_parse integer_scan" test_parseFloat test_dateParse "DateMs 0"]
  by simp

lemma test_customField: "JSON_stringify integer_toString (JObj [(''orderId'', JStr ''123'')])
   = Some [CHR ''{'', dquote, CHR ''o'', CHR ''r'', CHR ''d'', CHR ''e'', CHR ''r'', CHR ''I'', CHR ''d'',
       dquote, CHR '':'', dquote, CHR ''1'', CHR ''2'', CHR ''3'', dquote, CHR ''}'']"
  by (simp add: QuoteJSONString_def QuoteJSONChar_def dquote_def bslash_def)

lemma test_customField_parse: "JSON_parse integer_scan [CHR ''{'', dquote, CHR ''o'', CHR ''r'', CHR ''d'', CHR ''e'', CHR ''r'', CHR ''I'', CHR ''d'',
       dquote, CHR '':'', dquote, CHR ''1'', CHR ''2'', CHR ''3'', dquote, CHR ''}'']
   = Some (JObj [(''orderId'', JStr ''123'')])"
  by code_simp

lemma not_json_parse: "JSON_parse integer_scan ''not json'' = None"
  by code_simp

text \<open>
  C8, as the code has it. \<open>mapFromPaytechWebhook\<close> is total: it has no error result. For a
  payload whose custom field is present and not empty, the metadata of the event is the
  parsed value when the field parses as JSON, and the object \<^verbatim>\<open>{ raw: field }\<close> when the
  parser throws, whatever the parser is. For an empty custom field it is the empty object.
\<close>

theorem mapFromPaytechWebhook_metadata:
  assumes "wp_custom_field payload = Some cf"
  shows "ed_metadata (ev_data (mapFromPaytechWebhook jsonParse parseFloat dateParse now payload))
       = Some (if cf = [] then JObj []
               else (case jsonParse cf of Some v \<Rightarrow> v | None \<Rightarrow> JObj [(''raw'', JStr cf)]))"
  using assms by (simp add: mapFromPaytechWebhook_def Let_def)

theorem mapFromPaytechWebhook_metadata_witness:
  "ed_metadata (ev_data (mapFromPaytechWebhook (JSON_parse integer_scan) test_parseFloat test_dateParse (DateMs 0)
      test_webhookPayload)) = Some (JObj [(''orderId'', JStr ''123'')])
   \<and> ed_metadata (ev_data (mapFromPaytechWebhook (JSON_parse integer_scan) test_parseFloat test_dateParse (DateMs 0)
      (test_webhookPayload \<lparr> wp_custom_field := Some ''not json'' \<rparr>)))
       = Some (JObj [(''raw'', JStr ''not json'')])"
proof -
  have c: "wp_custom_field test_webhookPayload = Some [CHR ''{'', dquote, CHR ''o'', CHR ''r'', CHR ''d'', CHR ''e'', CHR ''r'', CHR ''I'', CHR ''d'',
       dquote, CHR '':'', dquote, CHR ''1'', CHR ''2'', CHR ''3'', dquote, CHR ''}'']"
    by (simp only: test_webhookPayload_def test_customField PaytechWebhookPayload.simps)
  have 1: "ed_metadata (ev_data (mapFromPaytechWebhook (JSON_parse integer_scan) test_parseFloat test_dateParse (DateMs 0)
      test_webhookPayload)) = Some (JObj [(''orderId'', JStr ''123'')])"
    using mapFromPaytechWebhook_metadata [OF c, of "JSON_parse integer_scan" test_parseFloat test_dateParse "DateMs 0"]
    by (simp add: test_customField_parse)
  have 2: "ed_metadata (ev_data (mapFromPaytechWebhook (JSON_parse integer_scan) test_parseFloat test_dateParse (DateMs 0)
      (test_webhookPayload \<lparr> wp_custom_field := Some ''not json'' \<rparr>)))
       = Some (JObj [(''raw'', JStr ''not json'')])"
    using mapFromPaytechWebhook_metadata
      [of "test_webhookPayload \<lparr> wp_custom_field := Some ''not json'' \<rparr>" "''not json''"
          "JSON_parse integer_scan" test_parseFloat test_dateParse "DateMs 0"]
    by (simp add: not_json_parse)
  show ?thesis
    using 1 2 by simp
qed

text \<open>
  An empty custom field is present and does not parse, and the metadata is the empty
  object, not \<^verbatim>\<open>{ raw: "" }\<close>.
\<close>

theorem mapFromPaytechWebhook_empty_custom_field_counterexample:
  "wp_custom_field (test_webhookPayload \<lparr> wp_custom_field := Some [] \<rparr>) = Some []
   \<and> JSON_parse integer_scan [] = None
   \<and> ed_metadata (ev_data (mapFromPaytechWebhook (JSON_parse integer_scan) test_parseFloat test_dateParse (DateMs 0)
        (test_webhookPayload \<lparr> wp_custom_field := Some [] \<rparr>))) = Some (JObj [])
   \<and> JObj [] \<noteq> JObj [(''raw'', JStr [])]"
  by (simp add: mapFromPaytechWebhook_def Let_def JSON_parse_def)

text \<open>
  C10. A payload of event type payment_canceled is mapped to the event type payment failed
  (the unified event types have none for a canceled payment, and it is not the default,
  payment success): the event type is the one of a payload of type payment_failed.
\<close>

theorem mapFromPaytechWebhook_canceled_is_failed:
  assumes "wp_type payload = ''payment_canceled''"
  shows "ev_type (mapFromPaytechWebhook jsonParse parseFloat dateParse now payload) = PAYMENT_FAILED
       \<and> (\<forall>other. wp_type other = ''payment_failed'' \<longrightarrow>
             ev_type (mapFromPaytechWebhook jsonParse parseFloat dateParse now other)
               = ev_type (mapFromPaytechWebhook jsonParse parseFloat dateParse now payload))"
  using assms by (simp add: mapFromPaytechWebhook_def Let_def PAYTECH_WEBHOOK_EVENT_defs)

theorem mapFromPaytechWebhook_canceled_is_failed_witness:
  "ev_type (mapFromPaytechWebhook (JSON_parse integer_scan) test_parseFloat test_dateParse (DateMs 0)
      (test_webhookPayload \<lparr> wp_type := ''payment_canceled'' \<rparr>)) = PAYMENT_FAILED
   \<and> ev_type (mapFromPaytechWebhook (JSON_parse integer_scan) test_parseFloat test_dateParse (DateMs 0)
      (test_webhookPayload \<lparr> wp_type := ''payment_failed'' \<rparr>))
     = ev_type (mapFromPaytechWebhook (JSON_parse integer_scan) test_parseFloat test_dateParse (DateMs 0)
      (test_webhookPayload \<lparr> wp_type := ''payment_canceled'' \<rparr>))"
  using mapFromPaytechWebhook_canceled_is_failed
    [of "test_webhookPayload \<lparr> wp_type := ''payment_canceled'' \<rparr>"
        "JSON_parse integer_scan" test_parseFloat test_dateParse "DateMs 0"]
  by simp

section \<open>The metadata round trip\<close>

text \<open>
  C9, as the code has it. For every request whose metadata JSON represents (no
  \<^verbatim>\<open>undefined\<close>, no number that is not finite), in particular \<^verbatim>\<open>{a:1}\<close>, the request
  mapper yields a custom field, and decoding it with \<open>JSON_parse\<close> yields the metadata
  back; this for every printer and reader of numbers such that each number of the metadata
  is read back from the string printed for it, which ECMAScript requires of
  \<^verbatim>\<open>Number.prototype.toString\<close> and the reading of a number literal at every finite
  number, integer or not. Numbers are equal by their values.
\<close>

theorem mapToPaytechRequest_metadata_roundtrip:
  assumes "req_metadata request = Some m" and "json_safe (JObj m)"
    and "\<forall>x\<in>set (numbers_of (JObj m)). reads_back numToString scanNumber x"
  shows "Option.bind (preq_custom_field (mapToPaytechRequest numToString request env))
           (JSON_parse scanNumber)
       = Some (JObj m)"
proof -
  obtain t where "JSON_stringify numToString (JObj m) = Some t"
    "JSON_parse scanNumber t = Some (JObj m)"
    using JSON_parse_stringify [OF assms(2,3)] by blast
  then show ?thesis
    using assms(1) by (simp add: mapToPaytechRequest_def)
qed

theorem mapToPaytechRequest_metadata_roundtrip_witness:
  "Option.bind
     (preq_custom_field
        (mapToPaytechRequest integer_toString
           (test_paymentRequest \<lparr> req_metadata := Some [(''a'', JNum (Finite 1))] \<rparr>) Env_test))
     (JSON_parse integer_scan)
   = Some (JObj [(''a'', JNum (Finite 1))])
   \<and> Option.bind
     (preq_custom_field
        (mapToPaytechRequest test_numToString
           (test_paymentRequest \<lparr> req_metadata := Some [(''price'', JNum (Finite (1999 / 100)))] \<rparr>)
           Env_test))
     (JSON_parse test_scanNumber)
   = Some (JObj [(''price'', JNum (Finite (1999 / 100)))])"
proof -
  have one: "reads_back integer_toString integer_scan (Finite 1)"
    using integer_reads_back [of 1] by simp
  have 1: "Option.bind
     (preq_custom_field
        (mapToPaytechRequest integer_toString
           (test_paymentRequest \<lparr> req_metadata := Some [(''a'', JNum (Finite 1))] \<rparr>) Env_test))
     (JSON_parse integer_scan)
   = Some (JObj [(''a'', JNum (Finite 1))])"
    using mapToPaytechRequest_metadata_roundtrip
      [of "test_paymentRequest \<lparr> req_metadata := Some [(''a'', JNum (Finite 1))] \<rparr>"
          "[(''a'', JNum (Finite 1))]" integer_toString integer_scan Env_test] one
    by simp
  have 2: "Option.bind
     (preq_custom_field
        (mapToPaytechRequest test_numToString
           (test_paymentRequest \<lparr> req_metadata := Some [(''price'', JNum (Finite (1999 / 100)))] \<rparr>)
           Env_test))
     (JSON_parse test_scanNumber)
   = Some (JObj [(''price'', JNum (Finite (1999 / 100)))])"
    using mapToPaytechRequest_metadata_roundtrip
      [of "test_paymentRequest \<lparr> req_metadata := Some [(''price'', JNum (Finite (1999 / 100)))] \<rparr>"
          "[(''price'', JNum (Finite (1999 / 100)))]" test_numToString test_scanNumber Env_test]
      test_reads_back_price
    by simp
  show ?thesis
    using 1 2 by (intro conjI)
qed

text \<open>
  A number that is not finite is written as \<^verbatim>\<open>null\<close>, and \<^verbatim>\<open>{a: Infinity}\<close> comes
  back as \<^verbatim>\<open>{a: null}\<close>.
\<close>

lemma infinity_customField:
  "preq_custom_field
     (mapToPaytechRequest integer_toString
        (test_paymentRequest \<lparr> req_metadata := Some [(''a'', JNum PosInfinity)] \<rparr>) Env_test)
   = Some [CHR ''{'', dquote, CHR ''a'', dquote, CHR '':'', CHR ''n'', CHR ''u'', CHR ''l'', CHR ''l'', CHR ''}'']"
  by (simp add: mapToPaytechRequest_def QuoteJSONString_def QuoteJSONChar_def dquote_def bslash_def)

lemma infinity_customField_parse:
  "JSON_parse integer_scan
     [CHR ''{'', dquote, CHR ''a'', dquote, CHR '':'', CHR ''n'', CHR ''u'', CHR ''l'', CHR ''l'', CHR ''}'']
   = Some (JObj [(''a'', JNull)])"
  by code_simp

theorem mapToPaytechRequest_metadata_infinity_counterexample:
  "Option.bind
     (preq_custom_field
        (mapToPaytechRequest integer_toString
           (test_paymentRequest \<lparr> req_metadata := Some [(''a'', JNum PosInfinity)] \<rparr>) Env_test))
     (JSON_parse integer_scan)
   = Some (JObj [(''a'', JNull)])
   \<and> JObj [(''a'', JNull)] \<noteq> JObj [(''a'', JNum PosInfinity)]"
  by (simp add: infinity_customField infinity_customField_parse)

end
